theory Spec2Isabelle
  imports Main "HOL-Library.Word"
begin

section \<open>The platform: DirectWrite as an external collaborator\<close>

text \<open>
  \<^verbatim>\<open>CustomFontSetManager.cpp\<close> is a sequence of calls into DirectWrite. The platform
  is not part of the repository, so it is a parameter of every operation below: a value
  of type \<open>platform\<close> answers each call. Every call the manager makes is appended to a
  trace (the \<open>world\<close>), together with the \<^verbatim>\<open>HRESULT\<close> the platform returned, so that
  the order and the number of calls can be stated.

  What is fixed about the platform, besides the signatures of its calls:
  \<^item> a loader made by \<^verbatim>\<open>CreateInMemoryFontFileLoader\<close> is a new object;
  \<^item> \<^verbatim>\<open>AddFontFile\<close> refuses a file that is not font data with
    \<^verbatim>\<open>DWRITE_E_FILEFORMAT\<close>, and otherwise adds the fonts of the file to the builder;
  \<^item> the font set made by \<^verbatim>\<open>CreateFontSet\<close> holds the fonts added to the builder, in
    the order they were added, and does not change afterwards;
  \<^item> \<^verbatim>\<open>GetInformationalStrings\<close> reports that the full name exists exactly when the
    font face has at least one full-name string.
  Every other answer, and whether a call succeeds, is the platform's choice.
\<close>

type_synonym HRESULT = "32 word"

definition S_OK :: HRESULT where
  "S_OK = 0"


definition DWRITE_E_FILEFORMAT :: HRESULT where
  "DWRITE_E_FILEFORMAT = 0x88985000"

definition DWRITE_E_REMOTEFONT :: HRESULT where
  "DWRITE_E_REMOTEFONT = 0x8898500D"

text \<open>The macro \<^verbatim>\<open>FAILED(hr)\<close>: \<^verbatim>\<open>((HRESULT)(hr)) < 0\<close> on a signed 32-bit value.\<close>

definition FAILED :: "HRESULT \<Rightarrow> bool" where
  "FAILED hr = (sint hr < 0)"

text \<open>
  COM objects are known by their identity. A loader's identity is a number; two loaders
  created by two calls are two objects.
\<close>

type_synonym loader = nat

datatype factory = DWriteFactory

datatype data_owner = BinaryResources_owner | Document_owner

datatype DWRITE_LOCALITY =
  DWRITE_LOCALITY_REMOTE | DWRITE_LOCALITY_PARTIAL | DWRITE_LOCALITY_LOCAL

datatype DWRITE_FONT_PROPERTY_ID =
  DWRITE_FONT_PROPERTY_ID_FULL_NAME | DWRITE_FONT_PROPERTY_ID_POSTSCRIPT_NAME

datatype DWRITE_INFORMATIONAL_STRING_ID = DWRITE_INFORMATIONAL_STRING_FULL_NAME

text \<open>
  Modelled from the spec: \<^verbatim>\<open>MemoryFontInfo\<close> is declared in a header that is not among
  the sources. It is a memory buffer of raw font data; the manager reads its fields
  \<^verbatim>\<open>fontData\<close> (here the bytes the pointer refers to) and \<^verbatim>\<open>fontDataSize\<close>.
\<close>

record MemoryFontInfo =
  fontData :: "8 word list"
  fontDataSize :: "32 word"

text \<open>
  An \<^verbatim>\<open>IDWriteFontFile\<close> made by the in-memory loader is determined by the loader, the
  buffer, its size and the object that owns the buffer.
\<close>

datatype font_file = InMemoryFontFileReference loader "8 word list" "32 word" data_owner

text \<open>
  One font of a font set, as far as the manager's queries read it: the locality
  (\<^verbatim>\<open>IDWriteFontFaceReference::GetLocality\<close>), the full-name informational strings of
  the font face as (locale name, string) pairs (empty when the face has no full name,
  which is when \<^verbatim>\<open>GetInformationalStrings\<close> sets \<^verbatim>\<open>exists\<close> to false), and the
  x-height of \<^verbatim>\<open>DWRITE_FONT_METRICS1\<close>, a \<^verbatim>\<open>UINT16\<close>.
\<close>

record font_entry =
  locality :: DWRITE_LOCALITY
  full_names :: "(string \<times> string) list"
  xHeight :: "16 word"

type_synonym font_set = "font_entry list"

datatype api_call =
    DWriteCreateFactory
  | IDWriteFactory3_As_IDWriteFactory5
  | IDWriteFactory5_CreateInMemoryFontFileLoader
  | IDWriteFactory5_RegisterFontFileLoader loader
  | IDWriteFactory3_UnregisterFontFileLoader loader
  | IDWriteFactory5_CreateFontSetBuilder
  | IDWriteInMemoryFontFileLoader_CreateInMemoryFontFileReference
      loader "8 word list" "32 word" data_owner
  | IDWriteFontSetBuilder1_AddFontFile font_file
  | IDWriteFontSetBuilder1_CreateFontSet
  | IDWriteFontSet_GetPropertyValues DWRITE_FONT_PROPERTY_ID string
  | IDWriteStringList_GetStringLength nat
  | IDWriteStringList_GetString nat nat
  | IDWriteFontSet_GetFontFaceReference nat
  | IDWriteFontFaceReference_EnqueueFontDownloadRequest nat
  | IDWriteFontFaceReference_CreateFontFace nat
  | IDWriteFontFace3_GetInformationalStrings nat DWRITE_INFORMATIONAL_STRING_ID
  | IDWriteLocalizedStrings_FindLocaleName nat string
  | IDWriteLocalizedStrings_GetStringLength nat nat
  | IDWriteLocalizedStrings_GetString nat nat nat

type_synonym world = "(api_call \<times> HRESULT) list"

text \<open>
  The platform: \<open>status\<close> is the \<^verbatim>\<open>HRESULT\<close> of a call, given everything that was
  called before; \<open>parse_font_data\<close> gives the fonts of a buffer, or \<open>None\<close> for a buffer
  that is not font data in a supported format; \<open>property_values\<close> is the string list
  that \<^verbatim>\<open>IDWriteFontSet::GetPropertyValues\<close> answers for a property and a preferred
  locale.
\<close>

record platform =
  status :: "world \<Rightarrow> api_call \<Rightarrow> HRESULT"
  parse_font_data :: "8 word list \<Rightarrow> font_entry list option"
  property_values :: "font_set \<Rightarrow> DWRITE_FONT_PROPERTY_ID \<Rightarrow> string \<Rightarrow> string list"

definition call :: "platform \<Rightarrow> api_call \<Rightarrow> world \<Rightarrow> HRESULT \<times> world" where
  "call P c w = (let hr = status P w c in (hr, w @ [(c, hr)]))"

text \<open>
  \<^verbatim>\<open>IDWriteFactory5::CreateInMemoryFontFileLoader\<close>: on success the out parameter is a
  new object, whose identity is the position of the call in the trace.
\<close>

definition CreateInMemoryFontFileLoader :: "platform \<Rightarrow> world \<Rightarrow> HRESULT \<times> loader \<times> world" where
  "CreateInMemoryFontFileLoader P w =
     (let (hr, w') = call P IDWriteFactory5_CreateInMemoryFontFileLoader w
      in (hr, length w, w'))"

text \<open>The bytes a file reference covers: \<^verbatim>\<open>fontDataSize\<close> bytes from \<^verbatim>\<open>fontData\<close>.\<close>

fun fonts_in_file :: "platform \<Rightarrow> font_file \<Rightarrow> font_entry list option" where
  "fonts_in_file P (InMemoryFontFileReference ldr bytes n own) =
     parse_font_data P (take (unat n) bytes)"

text \<open>
  \<^verbatim>\<open>IDWriteFontSetBuilder1::AddFontFile\<close>: all the fonts of the file are added to the
  builder in one call; a file that is not font data is refused with
  \<^verbatim>\<open>DWRITE_E_FILEFORMAT\<close> (the error the comment at the call names).
\<close>

definition AddFontFile ::
  "platform \<Rightarrow> font_file \<Rightarrow> font_entry list \<Rightarrow> world \<Rightarrow> HRESULT \<times> font_entry list \<times> world" where
  "AddFontFile P file builder w =
     (case fonts_in_file P file of
        None \<Rightarrow>
          (DWRITE_E_FILEFORMAT, builder,
           w @ [(IDWriteFontSetBuilder1_AddFontFile file, DWRITE_E_FILEFORMAT)])
      | Some fonts \<Rightarrow>
          (let (hr, w') = call P (IDWriteFontSetBuilder1_AddFontFile file) w
           in (hr, if FAILED hr then builder else builder @ fonts, w')))"

text \<open>
  \<^verbatim>\<open>IDWriteLocalizedStrings::FindLocaleName\<close>: the index of the string of a locale, when
  there is one.
\<close>

fun FindLocaleName :: "(string \<times> string) list \<Rightarrow> string \<Rightarrow> nat option" where
  "FindLocaleName [] localeName = None"
| "FindLocaleName (s # strings) localeName =
     (if fst s = localeName then Some 0
      else map_option Suc (FindLocaleName strings localeName))"

section \<open>The manager\<close>

text \<open>
  The two ways an operation ends without a result: an exception that carries a failed
  \<^verbatim>\<open>HRESULT\<close>, and a method called through a null \<^verbatim>\<open>ComPtr\<close>.
\<close>

datatype error = ComFailure HRESULT | NullDereference

text \<open>
  Modelled from the spec: \<^verbatim>\<open>DX::ThrowIfFailed\<close> is defined in a header that is not among
  the sources. A failed \<^verbatim>\<open>HRESULT\<close> is a fatal error, propagated to the caller at once;
  any other \<^verbatim>\<open>HRESULT\<close> lets the operation go on.
\<close>

definition ThrowIfFailed :: "HRESULT \<Rightarrow> error + unit" where
  "ThrowIfFailed hr = (if FAILED hr then Inl (ComFailure hr) else Inr ())"

record manager =
  m_dwriteFactory3 :: "factory option"
  m_dwriteFactory5 :: "factory option"
  m_inMemoryFontFileLoader :: "loader option"
  m_customFontSet :: "font_set option"


definition IDWriteFactory5_IsAvailable :: "manager \<Rightarrow> bool" where
  "IDWriteFactory5_IsAvailable m = (m_dwriteFactory5 m \<noteq> None)"



text \<open>
  One of the two loops of \<^verbatim>\<open>CreateFontSetUsingInMemoryFontData\<close>, over a vector of
  \<^verbatim>\<open>MemoryFontInfo\<close>: a file reference for the buffer, then \<^verbatim>\<open>AddFontFile\<close>. The builder
  is the list of fonts added so far. (The loop index is a \<^verbatim>\<open>uint32_t\<close>; a vector holds
  fewer than \<open>2 ^ 32\<close> buffers.)
\<close>

fun add_fonts ::
  "platform \<Rightarrow> loader \<Rightarrow> data_owner \<Rightarrow> MemoryFontInfo list \<Rightarrow> font_entry list \<Rightarrow> world
   \<Rightarrow> (error + font_entry list) \<times> world" where
  "add_fonts P ldr own [] builder w = (Inr builder, w)"
| "add_fonts P ldr own (fontInfo # rest) builder w =
     (let (hr1, w1) =
            call P (IDWriteInMemoryFontFileLoader_CreateInMemoryFontFileReference
                      ldr (fontData fontInfo) (fontDataSize fontInfo) own) w
      in case ThrowIfFailed hr1 of Inl err \<Rightarrow> (Inl err, w1) | Inr u \<Rightarrow>
      let fontFileReference =
            InMemoryFontFileReference ldr (fontData fontInfo) (fontDataSize fontInfo) own;
          (hr2, builder', w2) = AddFontFile P fontFileReference builder w1
      in case ThrowIfFailed hr2 of Inl err \<Rightarrow> (Inl err, w2)
         | Inr u \<Rightarrow> add_fonts P ldr own rest builder' w2)"

text \<open>
  \<^verbatim>\<open>CreateFontSetUsingInMemoryFontData\<close>. \<^verbatim>\<open>BinaryResources::GetFonts\<close> and
  \<^verbatim>\<open>Document::GetFonts\<close> are not among the sources: the vectors they fill are the
  parameters \<open>appFontResources\<close> and \<open>documentFonts\<close>. Taking the address of a
  \<^verbatim>\<open>ComPtr\<close> member releases what it held, so a failed call leaves the member null.
\<close>

definition CreateFontSetUsingInMemoryFontData ::
  "platform \<Rightarrow> MemoryFontInfo list \<Rightarrow> MemoryFontInfo list \<Rightarrow> manager \<Rightarrow> world
   \<Rightarrow> (error + unit) \<times> manager \<times> world" where
  "CreateFontSetUsingInMemoryFontData P appFontResources documentFonts m w =
     (case m_dwriteFactory5 m of
        None \<Rightarrow> (Inl NullDereference, m, w)
      | Some f5 \<Rightarrow>
     let (hr1, ldr, w1) = CreateInMemoryFontFileLoader P w in
     case ThrowIfFailed hr1 of
       Inl err \<Rightarrow> (Inl err, m\<lparr>m_inMemoryFontFileLoader := None\<rparr>, w1)
     | Inr u \<Rightarrow>
     let m1 = m\<lparr>m_inMemoryFontFileLoader := Some ldr\<rparr>;
         (hr2, w2) = call P (IDWriteFactory5_RegisterFontFileLoader ldr) w1 in
     case ThrowIfFailed hr2 of Inl err \<Rightarrow> (Inl err, m1, w2) | Inr u \<Rightarrow>
     let (hr3, w3) = call P IDWriteFactory5_CreateFontSetBuilder w2 in
     case ThrowIfFailed hr3 of Inl err \<Rightarrow> (Inl err, m1, w3) | Inr u \<Rightarrow>
     (case add_fonts P ldr BinaryResources_owner appFontResources [] w3 of
        (Inl e, w4) \<Rightarrow> (Inl e, m1, w4)
      | (Inr fontSetBuilder, w4) \<Rightarrow>
     (case add_fonts P ldr Document_owner documentFonts fontSetBuilder w4 of
        (Inl e, w5) \<Rightarrow> (Inl e, m1, w5)
      | (Inr fontSetBuilder', w5) \<Rightarrow>
     let (hr6, w6) = call P IDWriteFontSetBuilder1_CreateFontSet w5 in
     case ThrowIfFailed hr6 of Inl err \<Rightarrow> (Inl err, m1\<lparr>m_customFontSet := None\<rparr>, w6)
     | Inr u \<Rightarrow> (Inr (), m1\<lparr>m_customFontSet := Some fontSetBuilder'\<rparr>, w6))))"

text \<open>
  \<^verbatim>\<open>IDWriteFontSet::GetFontCount\<close> is a \<^verbatim>\<open>UINT32\<close>; a font set holds fewer than
  \<open>2 ^ 32\<close> fonts, and the count is a natural number here.
\<close>

definition GetFontCount :: "manager \<Rightarrow> nat" where
  "GetFontCount m = (case m_customFontSet m of None \<Rightarrow> 0 | Some fs \<Rightarrow> length fs)"

text \<open>
  \<^verbatim>\<open>GetPropertyValuesFromFontSet\<close>: one call of \<^verbatim>\<open>GetPropertyValues\<close> on the font set,
  with the property and the language preference \<^verbatim>\<open>L"en-US"\<close>. The
  \<^verbatim>\<open>IDWriteStringList\<close> it returns is the list of its strings.
\<close>

definition GetPropertyValuesFromFontSet ::
  "platform \<Rightarrow> DWRITE_FONT_PROPERTY_ID \<Rightarrow> manager \<Rightarrow> world \<Rightarrow> (error + string list) \<times> world" where
  "GetPropertyValuesFromFontSet P propertyId m w =
     (case m_customFontSet m of
        None \<Rightarrow> (Inl NullDereference, w)
      | Some fs \<Rightarrow>
          (let (hr, w1) = call P (IDWriteFontSet_GetPropertyValues propertyId ''en-US'') w
           in case ThrowIfFailed hr of Inl err \<Rightarrow> (Inl err, w1)
              | Inr u \<Rightarrow> (Inr (property_values P fs propertyId ''en-US''), w1)))"

text \<open>
  The loop of \<^verbatim>\<open>GetFullFontNames\<close> over the string list: the length of string \<open>i\<close>, a
  buffer of that length, the string copied into it, and \<^verbatim>\<open>push_back\<close>.
\<close>

fun copy_strings ::
  "platform \<Rightarrow> nat \<Rightarrow> string list \<Rightarrow> string list \<Rightarrow> world \<Rightarrow> (error + string list) \<times> world" where
  "copy_strings P i [] fullNames w = (Inr fullNames, w)"
| "copy_strings P i (s # rest) fullNames w =
     (let (hr1, w1) = call P (IDWriteStringList_GetStringLength i) w in
      case ThrowIfFailed hr1 of Inl err \<Rightarrow> (Inl err, w1) | Inr u \<Rightarrow>
      let len = length s;
          (hr2, w2) = call P (IDWriteStringList_GetString i (len + 1)) w1 in
      case ThrowIfFailed hr2 of Inl err \<Rightarrow> (Inl err, w2) | Inr u \<Rightarrow>
      let propertyValueString = take len s
      in copy_strings P (Suc i) rest (fullNames @ [propertyValueString]) w2)"

definition GetFullFontNames :: "platform \<Rightarrow> manager \<Rightarrow> world \<Rightarrow> (error + string list) \<times> world" where
  "GetFullFontNames P m w =
     (case GetPropertyValuesFromFontSet P DWRITE_FONT_PROPERTY_ID_FULL_NAME m w of
        (Inl e, w1) \<Rightarrow> (Inl e, w1)
      | (Inr fullNamePropertyValues, w1) \<Rightarrow> copy_strings P 0 fullNamePropertyValues [] w1)"

text \<open>\<^verbatim>\<open>std::to_wstring\<close> of an unsigned value: its decimal digits.\<close>

definition digit_char :: "nat \<Rightarrow> char" where
  "digit_char d = ''0123456789'' ! (d mod 10)"

fun to_wstring :: "nat \<Rightarrow> string" where
  "to_wstring n =
     (if n < 10 then [digit_char n] else to_wstring (n div 10) @ [digit_char (n mod 10)])"

declare to_wstring.simps [simp del]

text \<open>
  A \<^verbatim>\<open>HANDLE\<close> that can be waited on: null, or an event that is signalled or not.
\<close>

datatype HANDLE = NullHandle | EventHandle bool

text \<open>
  The first loop of \<^verbatim>\<open>GetFontDataDetails\<close>: for each font of the set, its face reference
  and a download request put on the queue.
\<close>

fun enqueue_requests ::
  "platform \<Rightarrow> nat \<Rightarrow> font_entry list \<Rightarrow> world \<Rightarrow> (error + unit) \<times> world" where
  "enqueue_requests P fontIndex [] w = (Inr (), w)"
| "enqueue_requests P fontIndex (e # rest) w =
     (let (hr1, w1) = call P (IDWriteFontSet_GetFontFaceReference fontIndex) w in
      case ThrowIfFailed hr1 of Inl err \<Rightarrow> (Inl err, w1) | Inr u \<Rightarrow>
      let (hr2, w2) = call P (IDWriteFontFaceReference_EnqueueFontDownloadRequest fontIndex) w1 in
      case ThrowIfFailed hr2 of Inl err \<Rightarrow> (Inl err, w2)
      | Inr u \<Rightarrow> enqueue_requests P (Suc fontIndex) rest w2)"

text \<open>
  The body of the second loop, for the font \<open>e\<close> at \<open>fontIndex\<close>: the face reference, the
  font face, its full-name strings; the \<^verbatim>\<open>en-US\<close> string or else the first one, or
  \<^verbatim>\<open>Font <index>\<close> when the face has no full name; then the x-height.
\<close>

definition font_detail_report ::
  "platform \<Rightarrow> nat \<Rightarrow> font_entry \<Rightarrow> world \<Rightarrow> (error + string) \<times> world" where
  "font_detail_report P fontIndex e w =
     (let (hr1, w1) = call P (IDWriteFontSet_GetFontFaceReference fontIndex) w in
      case ThrowIfFailed hr1 of Inl err \<Rightarrow> (Inl err, w1) | Inr u \<Rightarrow>
      let (hr2, w2) = call P (IDWriteFontFaceReference_CreateFontFace fontIndex) w1 in
      case ThrowIfFailed hr2 of Inl err \<Rightarrow> (Inl err, w2) | Inr u \<Rightarrow>
      let (hr3, w3) =
            call P (IDWriteFontFace3_GetInformationalStrings fontIndex
                      DWRITE_INFORMATIONAL_STRING_FULL_NAME) w2 in
      case ThrowIfFailed hr3 of Inl err \<Rightarrow> (Inl err, w3) | Inr u \<Rightarrow>
      let localizedStrings = full_names e;
          metrics = ''x-height = '' @ to_wstring (unat (xHeight e)) in
      if localizedStrings \<noteq> [] then
        (let (hr4, w4) = call P (IDWriteLocalizedStrings_FindLocaleName fontIndex ''en-US'') w3 in
         case ThrowIfFailed hr4 of Inl err \<Rightarrow> (Inl err, w4) | Inr u \<Rightarrow>
         let stringIndex =
               (case FindLocaleName localizedStrings ''en-US'' of Some i \<Rightarrow> i | None \<Rightarrow> 0);
             (hr5, w5) = call P (IDWriteLocalizedStrings_GetStringLength fontIndex stringIndex) w4 in
         case ThrowIfFailed hr5 of Inl err \<Rightarrow> (Inl err, w5) | Inr u \<Rightarrow>
         let stringLength = length (snd (localizedStrings ! stringIndex));
             (hr6, w6) =
               call P (IDWriteLocalizedStrings_GetString fontIndex stringIndex (stringLength + 1)) w5 in
         case ThrowIfFailed hr6 of Inl err \<Rightarrow> (Inl err, w6) | Inr u \<Rightarrow>
         let fontDetailReport = take stringLength (snd (localizedStrings ! stringIndex))
         in (Inr (fontDetailReport @ '': '' @ metrics), w6))
      else (Inr (''Font '' @ to_wstring fontIndex @ '': '' @ metrics), w3))"

fun report_fonts ::
  "platform \<Rightarrow> nat \<Rightarrow> font_entry list \<Rightarrow> string list \<Rightarrow> world \<Rightarrow> (error + string list) \<times> world" where
  "report_fonts P fontIndex [] resultVector w = (Inr resultVector, w)"
| "report_fonts P fontIndex (e # rest) resultVector w =
     (case font_detail_report P fontIndex e w of
        (Inl err, w1) \<Rightarrow> (Inl err, w1)
      | (Inr fontDetailReport, w1) \<Rightarrow>
          report_fonts P (Suc fontIndex) rest (resultVector @ [fontDetailReport]) w1)"

text \<open>
  \<^verbatim>\<open>GetFontDataDetails\<close>. The body never reads \<open>cancellationHandle\<close>, and waits on
  nothing.
\<close>

definition GetFontDataDetails ::
  "platform \<Rightarrow> HANDLE \<Rightarrow> manager \<Rightarrow> world \<Rightarrow> (error + string list) \<times> world" where
  "GetFontDataDetails P cancellationHandle m w =
     (case m_customFontSet m of
        None \<Rightarrow> (Inl NullDereference, w)
      | Some fs \<Rightarrow>
          (case enqueue_requests P 0 fs w of
             (Inl e, w1) \<Rightarrow> (Inl e, w1)
           | (Inr u, w1) \<Rightarrow> report_fonts P 0 fs [] w1))"

text \<open>
  The loop of \<^verbatim>\<open>CustomFontSetHasRemoteFonts\<close>, from the font at \<open>fontIndex\<close> on: the face
  reference of the font, and true at the first font whose locality is not
  \<^verbatim>\<open>DWRITE_LOCALITY_LOCAL\<close>.
\<close>

fun has_remote_from ::
  "platform \<Rightarrow> nat \<Rightarrow> font_entry list \<Rightarrow> world \<Rightarrow> (error + bool) \<times> world" where
  "has_remote_from P fontIndex [] w = (Inr False, w)"
| "has_remote_from P fontIndex (e # rest) w =
     (let (hr, w1) = call P (IDWriteFontSet_GetFontFaceReference fontIndex) w in
      case ThrowIfFailed hr of Inl err \<Rightarrow> (Inl err, w1)
      | Inr u \<Rightarrow> if locality e \<noteq> DWRITE_LOCALITY_LOCAL then (Inr True, w1)
      else has_remote_from P (Suc fontIndex) rest w1)"

definition CustomFontSetHasRemoteFonts :: "platform \<Rightarrow> manager \<Rightarrow> world \<Rightarrow> (error + bool) \<times> world" where
  "CustomFontSetHasRemoteFonts P m w =
     (case m_customFontSet m of
        None \<Rightarrow> (Inl NullDereference, w)
      | Some fs \<Rightarrow> has_remote_from P 0 fs w)"

section \<open>Reading the trace\<close>

text \<open>The loaders of the \<^verbatim>\<open>RegisterFontFileLoader\<close> calls of a trace, in order.\<close>

fun registered_loader :: "api_call \<Rightarrow> loader list" where
  "registered_loader (IDWriteFactory5_RegisterFontFileLoader ldr) = [ldr]"
| "registered_loader c = []"

definition registration_calls :: "world \<Rightarrow> loader list" where
  "registration_calls w = concat (map (\<lambda>ev. registered_loader (fst ev)) w)"



text \<open>The files of the \<^verbatim>\<open>AddFontFile\<close> calls of a trace, in order.\<close>

fun added_file :: "api_call \<Rightarrow> font_file list" where
  "added_file (IDWriteFontSetBuilder1_AddFontFile file) = [file]"
| "added_file c = []"

definition added_files :: "world \<Rightarrow> font_file list" where
  "added_files w = concat (map (\<lambda>ev. added_file (fst ev)) w)"

text \<open>
  The font indices of the \<^verbatim>\<open>EnqueueFontDownloadRequest\<close> calls and of the
  \<^verbatim>\<open>CreateFontFace\<close> calls of a trace, in order.
\<close>

fun enqueued_font :: "api_call \<Rightarrow> nat list" where
  "enqueued_font (IDWriteFontFaceReference_EnqueueFontDownloadRequest i) = [i]"
| "enqueued_font c = []"

definition enqueued_fonts :: "world \<Rightarrow> nat list" where
  "enqueued_fonts w = concat (map (\<lambda>ev. enqueued_font (fst ev)) w)"

fun created_face :: "api_call \<Rightarrow> nat list" where
  "created_face (IDWriteFontFaceReference_CreateFontFace i) = [i]"
| "created_face c = []"

definition created_faces :: "world \<Rightarrow> nat list" where
  "created_faces w = concat (map (\<lambda>ev. created_face (fst ev)) w)"





section \<open>What the specification says a report line is\<close>

text \<open>
  In the specification's words: the entry's canonical full name, or an index-based
  placeholder \<^verbatim>\<open>Font <index>\<close> when the full name is unavailable, followed by one
  numeric metric, the x-height. The canonical full name is the \<^verbatim>\<open>en-US\<close> one, or
  else the first the font has.
\<close>

definition canonical_full_name :: "font_entry \<Rightarrow> string option" where
  "canonical_full_name e =
     (case full_names e of
        [] \<Rightarrow> None
      | s # rest \<Rightarrow>
          (case map_of (full_names e) ''en-US'' of
             Some name \<Rightarrow> Some name
           | None \<Rightarrow> Some (snd s)))"

definition expected_report_line :: "nat \<Rightarrow> font_entry \<Rightarrow> string" where
  "expected_report_line i e =
     (case canonical_full_name e of
        Some name \<Rightarrow> name
      | None \<Rightarrow> ''Font '' @ to_wstring i)
     @ '': x-height = '' @ to_wstring (unat (xHeight e))"

section \<open>A platform to run the operations on\<close>

text \<open>
  A small platform on which every call succeeds. A buffer whose first byte is 1 or 2
  holds one local font; any other buffer is not font data. The property values of a font
  set are the best full name of each font for the preferred locale, each value once.
\<close>

definition sample_font :: "string \<Rightarrow> 16 word \<Rightarrow> font_entry" where
  "sample_font name xh =
     \<lparr>locality = DWRITE_LOCALITY_LOCAL, full_names = [(''en-US'', name)], xHeight = xh\<rparr>"

fun sample_parse :: "8 word list \<Rightarrow> font_entry list option" where
  "sample_parse [] = None"
| "sample_parse (b # bs) =
     (if b = 1 then Some [sample_font ''Sample Sans'' 1062]
      else if b = 2 then Some [sample_font ''Sample Serif'' 916]
      else None)"

definition best_full_name :: "string \<Rightarrow> font_entry \<Rightarrow> string list" where
  "best_full_name localeName e =
     (case FindLocaleName (full_names e) localeName of
        Some i \<Rightarrow> [snd (full_names e ! i)]
      | None \<Rightarrow> (case full_names e of [] \<Rightarrow> [] | s # rest \<Rightarrow> [snd s]))"

definition sample_property_values ::
  "font_set \<Rightarrow> DWRITE_FONT_PROPERTY_ID \<Rightarrow> string \<Rightarrow> string list" where
  "sample_property_values fs propertyId localeName =
     remdups (concat (map (best_full_name localeName) fs))"

definition sample_platform :: platform where
  "sample_platform =
     \<lparr>status = (\<lambda>w c. S_OK), parse_font_data = sample_parse,
      property_values = sample_property_values\<rparr>"

definition sans_buffer :: MemoryFontInfo where
  "sans_buffer = \<lparr>fontData = [1, 0, 0, 0], fontDataSize = 4\<rparr>"

definition serif_buffer :: MemoryFontInfo where
  "serif_buffer = \<lparr>fontData = [2, 0, 0, 0], fontDataSize = 4\<rparr>"

definition malformed_buffer :: MemoryFontInfo where
  "malformed_buffer = \<lparr>fontData = [255, 255], fontDataSize = 2\<rparr>"

text \<open>The manager the constructor makes on the sample platform.\<close>

definition fresh_manager :: manager where
  "fresh_manager =
     \<lparr>m_dwriteFactory3 = Some DWriteFactory, m_dwriteFactory5 = Some DWriteFactory,
      m_inMemoryFontFileLoader = None, m_customFontSet = None\<rparr>"




section \<open>Helpers for the statements\<close>

text \<open>The file reference that the loop body makes for a buffer.\<close>

definition file_of :: "loader \<Rightarrow> data_owner \<Rightarrow> MemoryFontInfo \<Rightarrow> font_file" where
  "file_of ldr own fi = InMemoryFontFileReference ldr (fontData fi) (fontDataSize fi) own"


text \<open>The calls of the two loops over the buffers, and the calls that change the set of
  registered loaders.\<close>

fun file_event :: "api_call \<Rightarrow> bool" where
  "file_event (IDWriteInMemoryFontFileLoader_CreateInMemoryFontFileReference ldr bytes n own) = True"
| "file_event (IDWriteFontSetBuilder1_AddFontFile file) = True"
| "file_event c = False"

fun loader_event :: "api_call \<Rightarrow> bool" where
  "loader_event (IDWriteFactory5_RegisterFontFileLoader ldr) = True"
| "loader_event (IDWriteFactory3_UnregisterFontFileLoader ldr) = True"
| "loader_event c = False"


text \<open>The build operation invoked twice on the same manager.\<close>

definition build_twice ::
  "platform \<Rightarrow> MemoryFontInfo list \<Rightarrow> MemoryFontInfo list \<Rightarrow> manager \<Rightarrow> world
   \<Rightarrow> (error + unit) \<times> manager \<times> world" where
  "build_twice P appFontResources documentFonts m w =
     (case CreateFontSetUsingInMemoryFontData P appFontResources documentFonts m w of
        (r1, m1, w1) \<Rightarrow> CreateFontSetUsingInMemoryFontData P appFontResources documentFonts m1 w1)"


text \<open>
  The sample run: the constructor's manager, one build from one app-resource buffer and
  one document buffer, and the manager and the trace it leaves.
\<close>

definition sample_build :: "(error + unit) \<times> manager \<times> world" where
  "sample_build =
     CreateFontSetUsingInMemoryFontData sample_platform [sans_buffer] [serif_buffer]
       fresh_manager []"

definition built_manager :: manager where
  "built_manager = fst (snd sample_build)"

definition built_world :: world where
  "built_world = snd (snd sample_build)"

text \<open>
  A platform on which the font data is not there: \<^verbatim>\<open>CreateFontFace\<close> fails with
  \<^verbatim>\<open>DWRITE_E_REMOTEFONT\<close>. And a font whose data is remote, a font without a full
  name, and the built manager with another font set in place of its own.
\<close>

fun remote_status :: "world \<Rightarrow> api_call \<Rightarrow> HRESULT" where
  "remote_status w (IDWriteFontFaceReference_CreateFontFace i) = DWRITE_E_REMOTEFONT"
| "remote_status w c = S_OK"

definition remote_platform :: platform where
  "remote_platform = sample_platform\<lparr>status := remote_status\<rparr>"

definition remote_font :: font_entry where
  "remote_font =
     \<lparr>locality = DWRITE_LOCALITY_REMOTE, full_names = [(''en-US'', ''Cloud Sans'')],
      xHeight = 1000\<rparr>"

definition nameless_font :: font_entry where
  "nameless_font = \<lparr>locality = DWRITE_LOCALITY_LOCAL, full_names = [], xHeight = 500\<rparr>"

definition manager_with :: "font_set \<Rightarrow> manager" where
  "manager_with fs = built_manager\<lparr>m_customFontSet := Some fs\<rparr>"


section \<open>Properties of the build\<close>

lemma ThrowIfFailed_case [simp]:
  "(case ThrowIfFailed hr of Inl err \<Rightarrow> f err | Inr u \<Rightarrow> g u) =
   (if FAILED hr then f (ComFailure hr) else g ())"
  by (simp add: ThrowIfFailed_def)


lemma FAILED_S_OK: "\<not> FAILED S_OK" by (simp add: FAILED_def S_OK_def)
lemma FAILED_FILEFORMAT: "FAILED DWRITE_E_FILEFORMAT" by (simp add: FAILED_def DWRITE_E_FILEFORMAT_def)

lemma call_world: "call P c w = (hr, w') \<Longrightarrow> w' = w @ [(c, hr)]"
  by (auto simp: call_def Let_def)

lemma call_status: "call P c w = (hr, w') \<Longrightarrow> hr = status P w c"
  by (auto simp: call_def Let_def)

lemma AddFontFile_world:
  "AddFontFile P file b w = (hr, b', w') \<Longrightarrow> w' = w @ [(IDWriteFontSetBuilder1_AddFontFile file, hr)]"
  by (auto simp: AddFontFile_def Let_def split: option.splits prod.splits dest: call_world)

lemma AddFontFile_ok:
  "AddFontFile P file b w = (hr, b', w') \<Longrightarrow> \<not> FAILED hr \<Longrightarrow>
   \<exists>fonts. fonts_in_file P file = Some fonts \<and> b' = b @ fonts"
  by (auto simp: AddFontFile_def Let_def FAILED_FILEFORMAT split: option.splits prod.splits)

lemma add_fonts_events:
  "add_fonts P ldr own xs b w = (r, w') \<Longrightarrow>
   \<exists>evs. w' = w @ evs \<and> list_all (\<lambda>ev. file_event (fst ev)) evs
      \<and> added_files evs = map (file_of ldr own) (take (length (added_files evs)) xs)"
proof (induction xs arbitrary: b w)
  case Nil
  then show ?case by (simp add: added_files_def)
next
  case (Cons fi rest)
  obtain hr1 w1 where c1: "call P (IDWriteInMemoryFontFileLoader_CreateInMemoryFontFileReference
                      ldr (fontData fi) (fontDataSize fi) own) w = (hr1, w1)"
    by (cases "call P (IDWriteInMemoryFontFileLoader_CreateInMemoryFontFileReference
                      ldr (fontData fi) (fontDataSize fi) own) w")
  note w1 = call_world [OF c1]
  show ?case
  proof (cases "FAILED hr1")
    case True
    with Cons.prems c1 w1 show ?thesis by (auto simp: added_files_def)
  next
    case f1: False
    obtain hr2 b2 w2 where c2: "AddFontFile P (file_of ldr own fi) b w1 = (hr2, b2, w2)"
      by (cases "AddFontFile P (file_of ldr own fi) b w1")
    note w2 = AddFontFile_world [OF c2]
    show ?thesis
    proof (cases "FAILED hr2")
      case True
      with Cons.prems c1 c2 f1 have "w' = w2" by (simp add: file_of_def)
      with w1 w2 show ?thesis by (auto simp: added_files_def)
    next
      case False
      with Cons.prems c1 c2 f1 have "add_fonts P ldr own rest b2 w2 = (r, w')"
        by (simp add: file_of_def)
      from Cons.IH [OF this] obtain evs where
        evs: "w' = w2 @ evs" "list_all (\<lambda>ev. file_event (fst ev)) evs"
         "added_files evs = map (file_of ldr own) (take (length (added_files evs)) rest)"
        by blast
      let ?evs = "[(IDWriteInMemoryFontFileLoader_CreateInMemoryFontFileReference
                      ldr (fontData fi) (fontDataSize fi) own, hr1),
                   (IDWriteFontSetBuilder1_AddFontFile (file_of ldr own fi), hr2)] @ evs"
      have a: "added_files ?evs = file_of ldr own fi # added_files evs"
        by (simp add: added_files_def)
      have "w' = w @ ?evs" using evs w1 w2 by simp
      moreover have "list_all (\<lambda>ev. file_event (fst ev)) ?evs" using evs by simp
      moreover have "added_files ?evs = map (file_of ldr own) (take (length (added_files ?evs)) (fi # rest))"
        unfolding a using evs(3) by simp
      ultimately show ?thesis by blast
    qed
  qed
qed

lemma add_fonts_ok:
  "add_fonts P ldr own xs b w = (Inr b', w') \<Longrightarrow>
   \<exists>evs fontss. w' = w @ evs \<and> added_files evs = map (file_of ldr own) xs
      \<and> map (\<lambda>fi. fonts_in_file P (file_of ldr own fi)) xs = map Some fontss
      \<and> b' = b @ concat fontss"
proof (induction xs arbitrary: b w)
  case Nil
  then show ?case by (simp add: added_files_def)
next
  case (Cons fi rest)
  obtain hr1 w1 where c1: "call P (IDWriteInMemoryFontFileLoader_CreateInMemoryFontFileReference
                      ldr (fontData fi) (fontDataSize fi) own) w = (hr1, w1)"
    by (cases "call P (IDWriteInMemoryFontFileLoader_CreateInMemoryFontFileReference
                      ldr (fontData fi) (fontDataSize fi) own) w")
  note w1 = call_world [OF c1]
  obtain hr2 b2 w2 where c2: "AddFontFile P (file_of ldr own fi) b w1 = (hr2, b2, w2)"
    by (cases "AddFontFile P (file_of ldr own fi) b w1")
  note w2 = AddFontFile_world [OF c2]
  from Cons.prems c1 c2 have f: "\<not> FAILED hr1" "\<not> FAILED hr2"
    and rest: "add_fonts P ldr own rest b2 w2 = (Inr b', w')"
    by (auto simp: file_of_def split: if_splits)
  from AddFontFile_ok [OF c2 f(2)] obtain fonts where
    fonts: "fonts_in_file P (file_of ldr own fi) = Some fonts" "b2 = b @ fonts" by blast
  from Cons.IH [OF rest] obtain evs fontss where
    evs: "w' = w2 @ evs" "added_files evs = map (file_of ldr own) rest"
      "map (\<lambda>fi. fonts_in_file P (file_of ldr own fi)) rest = map Some fontss"
      "b' = b2 @ concat fontss"
    by blast
  let ?evs = "[(IDWriteInMemoryFontFileLoader_CreateInMemoryFontFileReference
                      ldr (fontData fi) (fontDataSize fi) own, hr1),
                   (IDWriteFontSetBuilder1_AddFontFile (file_of ldr own fi), hr2)] @ evs"
  have "w' = w @ ?evs" using evs w1 w2 by simp
  moreover have "added_files ?evs = map (file_of ldr own) (fi # rest)"
    using evs(2) by (simp add: added_files_def)
  moreover have "map (\<lambda>fi. fonts_in_file P (file_of ldr own fi)) (fi # rest) = map Some (fonts # fontss)"
    using fonts evs(3) by simp
  moreover have "b' = b @ concat (fonts # fontss)" using fonts evs(4) by simp
  ultimately show ?case by blast
qed

lemma file_event_not_loader: "file_event c \<Longrightarrow> \<not> loader_event c"
  by (cases c) simp_all

lemma CreateInMemoryFontFileLoader_world:
  "CreateInMemoryFontFileLoader P w = (hr, ldr, w') \<Longrightarrow>
   ldr = length w \<and> w' = w @ [(IDWriteFactory5_CreateInMemoryFontFileLoader, hr)]
   \<and> hr = status P w IDWriteFactory5_CreateInMemoryFontFileLoader"
  by (auto simp: CreateInMemoryFontFileLoader_def Let_def split: prod.splits dest: call_world call_status)


lemma build_cases [consumes 2, case_names create_failed register_failed builder_failed
    app_failed doc_failed finalize_failed built]:
  assumes f5: "m_dwriteFactory5 m = Some f5"
    and run: "CreateFontSetUsingInMemoryFontData P app doc m w = (r, m', w')"
  obtains
    hr1 where
      "hr1 = status P w IDWriteFactory5_CreateInMemoryFontFileLoader" "FAILED hr1"
      "r = Inl (ComFailure hr1)" "m' = m\<lparr>m_inMemoryFontFileLoader := None\<rparr>"
      "w' = w @ [(IDWriteFactory5_CreateInMemoryFontFileLoader, hr1)]"
  | hr1 hr2 where
      "hr1 = status P w IDWriteFactory5_CreateInMemoryFontFileLoader" "\<not> FAILED hr1" "FAILED hr2"
      "r = Inl (ComFailure hr2)" "m' = m\<lparr>m_inMemoryFontFileLoader := Some (length w)\<rparr>"
      "w' = w @ [(IDWriteFactory5_CreateInMemoryFontFileLoader, hr1),
                 (IDWriteFactory5_RegisterFontFileLoader (length w), hr2)]"
  | hr1 hr2 hr3 where
      "hr1 = status P w IDWriteFactory5_CreateInMemoryFontFileLoader" "\<not> FAILED hr1"
      "\<not> FAILED hr2" "FAILED hr3"
      "r = Inl (ComFailure hr3)" "m' = m\<lparr>m_inMemoryFontFileLoader := Some (length w)\<rparr>"
      "w' = w @ [(IDWriteFactory5_CreateInMemoryFontFileLoader, hr1),
                 (IDWriteFactory5_RegisterFontFileLoader (length w), hr2),
                 (IDWriteFactory5_CreateFontSetBuilder, hr3)]"
  | hr1 hr2 hr3 e where
      "hr1 = status P w IDWriteFactory5_CreateInMemoryFontFileLoader" "\<not> FAILED hr1"
      "\<not> FAILED hr2" "\<not> FAILED hr3"
      "add_fonts P (length w) BinaryResources_owner app []
         (w @ [(IDWriteFactory5_CreateInMemoryFontFileLoader, hr1),
               (IDWriteFactory5_RegisterFontFileLoader (length w), hr2),
               (IDWriteFactory5_CreateFontSetBuilder, hr3)]) = (Inl e, w')"
      "r = Inl e" "m' = m\<lparr>m_inMemoryFontFileLoader := Some (length w)\<rparr>"
  | hr1 hr2 hr3 b4 w4 e where
      "hr1 = status P w IDWriteFactory5_CreateInMemoryFontFileLoader" "\<not> FAILED hr1"
      "\<not> FAILED hr2" "\<not> FAILED hr3"
      "add_fonts P (length w) BinaryResources_owner app []
         (w @ [(IDWriteFactory5_CreateInMemoryFontFileLoader, hr1),
               (IDWriteFactory5_RegisterFontFileLoader (length w), hr2),
               (IDWriteFactory5_CreateFontSetBuilder, hr3)]) = (Inr b4, w4)"
      "add_fonts P (length w) Document_owner doc b4 w4 = (Inl e, w')"
      "r = Inl e" "m' = m\<lparr>m_inMemoryFontFileLoader := Some (length w)\<rparr>"
  | hr1 hr2 hr3 b4 w4 b5 w5 hr6 where
      "hr1 = status P w IDWriteFactory5_CreateInMemoryFontFileLoader" "\<not> FAILED hr1"
      "\<not> FAILED hr2" "\<not> FAILED hr3"
      "add_fonts P (length w) BinaryResources_owner app []
         (w @ [(IDWriteFactory5_CreateInMemoryFontFileLoader, hr1),
               (IDWriteFactory5_RegisterFontFileLoader (length w), hr2),
               (IDWriteFactory5_CreateFontSetBuilder, hr3)]) = (Inr b4, w4)"
      "add_fonts P (length w) Document_owner doc b4 w4 = (Inr b5, w5)"
      "FAILED hr6" "r = Inl (ComFailure hr6)"
      "m' = m\<lparr>m_inMemoryFontFileLoader := Some (length w), m_customFontSet := None\<rparr>"
      "w' = w5 @ [(IDWriteFontSetBuilder1_CreateFontSet, hr6)]"
  | hr1 hr2 hr3 b4 w4 b5 w5 hr6 where
      "hr1 = status P w IDWriteFactory5_CreateInMemoryFontFileLoader" "\<not> FAILED hr1"
      "\<not> FAILED hr2" "\<not> FAILED hr3"
      "add_fonts P (length w) BinaryResources_owner app []
         (w @ [(IDWriteFactory5_CreateInMemoryFontFileLoader, hr1),
               (IDWriteFactory5_RegisterFontFileLoader (length w), hr2),
               (IDWriteFactory5_CreateFontSetBuilder, hr3)]) = (Inr b4, w4)"
      "add_fonts P (length w) Document_owner doc b4 w4 = (Inr b5, w5)"
      "\<not> FAILED hr6" "r = Inr ()"
      "m' = m\<lparr>m_inMemoryFontFileLoader := Some (length w), m_customFontSet := Some b5\<rparr>"
      "w' = w5 @ [(IDWriteFontSetBuilder1_CreateFontSet, hr6)]"
proof -
  obtain hr1 ldr w1 where c1: "CreateInMemoryFontFileLoader P w = (hr1, ldr, w1)"
    by (cases "CreateInMemoryFontFileLoader P w")
  from CreateInMemoryFontFileLoader_world [OF c1] have
    ldr: "ldr = length w" and w1: "w1 = w @ [(IDWriteFactory5_CreateInMemoryFontFileLoader, hr1)]"
    and s1: "hr1 = status P w IDWriteFactory5_CreateInMemoryFontFileLoader"
    by simp_all
  obtain hr2 w2 where c2: "call P (IDWriteFactory5_RegisterFontFileLoader ldr) w1 = (hr2, w2)"
    by (cases "call P (IDWriteFactory5_RegisterFontFileLoader ldr) w1")
  have w2: "w2 = w @ [(IDWriteFactory5_CreateInMemoryFontFileLoader, hr1),
                      (IDWriteFactory5_RegisterFontFileLoader (length w), hr2)]"
    using call_world [OF c2] w1 ldr by simp
  obtain hr3 w3 where c3: "call P IDWriteFactory5_CreateFontSetBuilder w2 = (hr3, w3)"
    by (cases "call P IDWriteFactory5_CreateFontSetBuilder w2")
  have w3: "w3 = w @ [(IDWriteFactory5_CreateInMemoryFontFileLoader, hr1),
                      (IDWriteFactory5_RegisterFontFileLoader (length w), hr2),
                      (IDWriteFactory5_CreateFontSetBuilder, hr3)]"
    using call_world [OF c3] w2 by simp
  obtain r4 w4 where c4: "add_fonts P ldr BinaryResources_owner app [] w3 = (r4, w4)"
    by (cases "add_fonts P ldr BinaryResources_owner app [] w3")
  note build_def = CreateFontSetUsingInMemoryFontData_def Let_def
  show thesis
  proof (cases "FAILED hr1")
    case True
    with f5 run c1 s1 w1 show thesis by (intro that(1) [of hr1]) (auto simp: build_def)
  next
    case f1: False
    show thesis
    proof (cases "FAILED hr2")
      case True
      with f5 run c1 c2 f1 s1 w2 ldr show thesis
        by (intro that(2) [of hr1 hr2]) (auto simp: build_def)
    next
      case f2: False
      show thesis
      proof (cases "FAILED hr3")
        case True
        with f5 run c1 c2 c3 f1 f2 s1 w3 ldr show thesis
          by (intro that(3) [of hr1 hr2 hr3]) (auto simp: build_def)
      next
        case f3: False
        show thesis
        proof (cases r4)
          case (Inl e)
          with f5 run c1 c2 c3 c4 f1 f2 f3 s1 w3 ldr show thesis
            by (intro that(4) [of hr1 hr2 hr3 e]) (auto simp: build_def)
        next
          case b4: (Inr b4)
          obtain r5 w5 where c5: "add_fonts P ldr Document_owner doc b4 w4 = (r5, w5)"
            by (cases "add_fonts P ldr Document_owner doc b4 w4")
          show thesis
          proof (cases r5)
            case (Inl e)
            with f5 run c1 c2 c3 c4 c5 b4 f1 f2 f3 s1 w3 ldr show thesis
              by (intro that(5) [of hr1 hr2 hr3 b4 w4 e]) (auto simp: build_def)
          next
            case b5: (Inr b5)
            obtain hr6 w6 where c6: "call P IDWriteFontSetBuilder1_CreateFontSet w5 = (hr6, w6)"
              by (cases "call P IDWriteFontSetBuilder1_CreateFontSet w5")
            note w6 = call_world [OF c6]
            show thesis
            proof (cases "FAILED hr6")
              case True
              with f5 run c1 c2 c3 c4 c5 c6 b4 b5 f1 f2 f3 s1 w3 w6 ldr show thesis
                by (intro that(6) [of hr1 hr2 hr3 b4 w4 b5 w5 hr6]) (auto simp: build_def)
            next
              case False
              with f5 run c1 c2 c3 c4 c5 c6 b4 b5 f1 f2 f3 s1 w3 w6 ldr show thesis
                by (intro that(7) [of hr1 hr2 hr3 b4 w4 b5 w5 hr6]) (auto simp: build_def)
            qed
          qed
        qed
      qed
    qed
  qed
qed

lemma registration_calls_append:
  "registration_calls (w @ evs) = registration_calls w @ registration_calls evs"
  by (simp add: registration_calls_def)


lemma no_loader_event_registration_calls:
  "list_all (\<lambda>ev. \<not> loader_event (fst ev)) evs \<Longrightarrow> registration_calls evs = []"
proof (induction evs)
  case Nil
  then show ?case by (simp add: registration_calls_def)
next
  case (Cons ev evs)
  obtain c hr where ev: "ev = (c, hr)" by (cases ev)
  with Cons show ?case by (cases c) (simp_all add: registration_calls_def)
qed


lemma file_events_no_loader:
  "list_all (\<lambda>ev. file_event (fst ev)) evs \<Longrightarrow> list_all (\<lambda>ev. \<not> loader_event (fst ev)) evs"
  by (auto simp: list_all_iff file_event_not_loader)

lemma build_loader_trace:
  assumes f5: "m_dwriteFactory5 m = Some f5"
    and run: "CreateFontSetUsingInMemoryFontData P app doc m w = (r, m', w')"
    and ok: "\<not> FAILED (status P w IDWriteFactory5_CreateInMemoryFontFileLoader)"
  shows "m_inMemoryFontFileLoader m' = Some (length w) \<and>
         (\<exists>hr1 hr2 evs. w' = w @ [(IDWriteFactory5_CreateInMemoryFontFileLoader, hr1),
                               (IDWriteFactory5_RegisterFontFileLoader (length w), hr2)] @ evs
                     \<and> list_all (\<lambda>ev. \<not> loader_event (fst ev)) evs)"
  using f5 run
proof (cases rule: build_cases)
  case (create_failed hr1)
  with ok show ?thesis by simp
next
  case (register_failed hr1 hr2)
  then show ?thesis by simp
next
  case (builder_failed hr1 hr2 hr3)
  then show ?thesis by simp
next
  case (app_failed hr1 hr2 hr3 e)
  from add_fonts_events [OF app_failed(5)] obtain evs where
    "w' = (w @ [(IDWriteFactory5_CreateInMemoryFontFileLoader, hr1),
               (IDWriteFactory5_RegisterFontFileLoader (length w), hr2),
               (IDWriteFactory5_CreateFontSetBuilder, hr3)]) @ evs"
    "list_all (\<lambda>ev. file_event (fst ev)) evs" by blast
  then have "w' = w @ [(IDWriteFactory5_CreateInMemoryFontFileLoader, hr1),
               (IDWriteFactory5_RegisterFontFileLoader (length w), hr2)] @
               ((IDWriteFactory5_CreateFontSetBuilder, hr3) # evs)"
    "list_all (\<lambda>ev. \<not> loader_event (fst ev)) ((IDWriteFactory5_CreateFontSetBuilder, hr3) # evs)"
    by (simp_all add: file_events_no_loader)
  moreover from app_failed(7) have "m_inMemoryFontFileLoader m' = Some (length w)" by simp
  ultimately show ?thesis by blast
next
  case (doc_failed hr1 hr2 hr3 b4 w4 e)
  from add_fonts_events [OF doc_failed(5)] obtain evs4 where
    e4: "w4 = (w @ [(IDWriteFactory5_CreateInMemoryFontFileLoader, hr1),
               (IDWriteFactory5_RegisterFontFileLoader (length w), hr2),
               (IDWriteFactory5_CreateFontSetBuilder, hr3)]) @ evs4"
    "list_all (\<lambda>ev. file_event (fst ev)) evs4" by blast
  from add_fonts_events [OF doc_failed(6)] obtain evs5 where
    e5: "w' = w4 @ evs5" "list_all (\<lambda>ev. file_event (fst ev)) evs5" by blast
  from e4 e5 have "w' = w @ [(IDWriteFactory5_CreateInMemoryFontFileLoader, hr1),
               (IDWriteFactory5_RegisterFontFileLoader (length w), hr2)] @
               ((IDWriteFactory5_CreateFontSetBuilder, hr3) # evs4 @ evs5)"
    "list_all (\<lambda>ev. \<not> loader_event (fst ev)) ((IDWriteFactory5_CreateFontSetBuilder, hr3) # evs4 @ evs5)"
    by (simp_all add: file_events_no_loader)
  moreover from doc_failed(8) have "m_inMemoryFontFileLoader m' = Some (length w)" by simp
  ultimately show ?thesis by blast
next
  case (finalize_failed hr1 hr2 hr3 b4 w4 b5 w5 hr6)
  from add_fonts_events [OF finalize_failed(5)] obtain evs4 where
    e4: "w4 = (w @ [(IDWriteFactory5_CreateInMemoryFontFileLoader, hr1),
               (IDWriteFactory5_RegisterFontFileLoader (length w), hr2),
               (IDWriteFactory5_CreateFontSetBuilder, hr3)]) @ evs4"
    "list_all (\<lambda>ev. file_event (fst ev)) evs4" by blast
  from add_fonts_events [OF finalize_failed(6)] obtain evs5 where
    e5: "w5 = w4 @ evs5" "list_all (\<lambda>ev. file_event (fst ev)) evs5" by blast
  from e4 e5 finalize_failed(10) have "w' = w @ [(IDWriteFactory5_CreateInMemoryFontFileLoader, hr1),
               (IDWriteFactory5_RegisterFontFileLoader (length w), hr2)] @
               ((IDWriteFactory5_CreateFontSetBuilder, hr3) # evs4 @ evs5 @ [(IDWriteFontSetBuilder1_CreateFontSet, hr6)])"
    "list_all (\<lambda>ev. \<not> loader_event (fst ev)) ((IDWriteFactory5_CreateFontSetBuilder, hr3) # evs4 @ evs5 @ [(IDWriteFontSetBuilder1_CreateFontSet, hr6)])"
    by (simp_all add: file_events_no_loader)
  moreover from finalize_failed(9) have "m_inMemoryFontFileLoader m' = Some (length w)" by simp
  ultimately show ?thesis by blast
next
  case (built hr1 hr2 hr3 b4 w4 b5 w5 hr6)
  from add_fonts_events [OF built(5)] obtain evs4 where
    e4: "w4 = (w @ [(IDWriteFactory5_CreateInMemoryFontFileLoader, hr1),
               (IDWriteFactory5_RegisterFontFileLoader (length w), hr2),
               (IDWriteFactory5_CreateFontSetBuilder, hr3)]) @ evs4"
    "list_all (\<lambda>ev. file_event (fst ev)) evs4" by blast
  from add_fonts_events [OF built(6)] obtain evs5 where
    e5: "w5 = w4 @ evs5" "list_all (\<lambda>ev. file_event (fst ev)) evs5" by blast
  from e4 e5 built(10) have "w' = w @ [(IDWriteFactory5_CreateInMemoryFontFileLoader, hr1),
               (IDWriteFactory5_RegisterFontFileLoader (length w), hr2)] @
               ((IDWriteFactory5_CreateFontSetBuilder, hr3) # evs4 @ evs5 @ [(IDWriteFontSetBuilder1_CreateFontSet, hr6)])"
    "list_all (\<lambda>ev. \<not> loader_event (fst ev)) ((IDWriteFactory5_CreateFontSetBuilder, hr3) # evs4 @ evs5 @ [(IDWriteFontSetBuilder1_CreateFontSet, hr6)])"
    by (simp_all add: file_events_no_loader)
  moreover from built(9) have "m_inMemoryFontFileLoader m' = Some (length w)" by simp
  ultimately show ?thesis by blast
qed

lemma build_no_loader:
  assumes f5: "m_dwriteFactory5 m = Some f5"
    and run: "CreateFontSetUsingInMemoryFontData P app doc m w = (r, m', w')"
    and failed: "FAILED (status P w IDWriteFactory5_CreateInMemoryFontFileLoader)"
  shows "m_inMemoryFontFileLoader m' = None \<and>
         w' = w @ [(IDWriteFactory5_CreateInMemoryFontFileLoader,
                    status P w IDWriteFactory5_CreateInMemoryFontFileLoader)]"
  using f5 run
  by (cases rule: build_cases) (use failed in simp_all)

text \<open>
  Claim C2, as the code has it: there is no guard on the registration. Every invocation of
  \<^verbatim>\<open>CreateFontSetUsingInMemoryFontData\<close> that obtains a loader makes exactly one
  \<^verbatim>\<open>RegisterFontFileLoader\<close> call, for the loader that this invocation created; an
  invocation whose loader creation fails makes none.
\<close>

theorem build_registers_one_loader_per_call:
  assumes "m_dwriteFactory5 m \<noteq> None"
    and "CreateFontSetUsingInMemoryFontData P app doc m w = (r, m', w')"
  shows "registration_calls w' =
           registration_calls w @
           (if FAILED (status P w IDWriteFactory5_CreateInMemoryFontFileLoader) then []
            else [length w])"
proof -
  from assms(1) obtain f5 where f5: "m_dwriteFactory5 m = Some f5" by auto
  show ?thesis
  proof (cases "FAILED (status P w IDWriteFactory5_CreateInMemoryFontFileLoader)")
    case True
    from build_no_loader [OF f5 assms(2) True] True show ?thesis
      by (simp add: registration_calls_def)
  next
    case False
    from build_loader_trace [OF f5 assms(2) False] obtain hr1 hr2 evs where
      "w' = w @ [(IDWriteFactory5_CreateInMemoryFontFileLoader, hr1),
                 (IDWriteFactory5_RegisterFontFileLoader (length w), hr2)] @ evs"
      "list_all (\<lambda>ev. \<not> loader_event (fst ev)) evs" by blast
    with False show ?thesis
      using no_loader_event_registration_calls [of evs]
      by (simp add: registration_calls_def)
  qed
qed

lemma add_fonts_unparsable:
  assumes "\<exists>fi \<in> set xs. parse_font_data P (take (unat (fontDataSize fi)) (fontData fi)) = None"
  shows "add_fonts P ldr own xs builder w \<noteq> (Inr b', w')"
proof
  assume "add_fonts P ldr own xs builder w = (Inr b', w')"
  from add_fonts_ok [OF this] obtain fontss where
    "map (\<lambda>fi. fonts_in_file P (file_of ldr own fi)) xs = map Some fontss" by blast
  then have "\<forall>fi \<in> set xs. fonts_in_file P (file_of ldr own fi) \<noteq> None"
    by (metis (no_types, lifting) imageE image_eqI list.set_map option.distinct(1))
  with assms show False by (auto simp: file_of_def)
qed

lemma add_fonts_failure:
  "add_fonts P ldr own xs builder w = (Inl e, w') \<Longrightarrow> \<exists>hr. e = ComFailure hr \<and> FAILED hr"
proof (induction xs arbitrary: builder w)
  case Nil
  then show ?case by simp
next
  case (Cons fi rest)
  obtain hr1 w1 where c1: "call P (IDWriteInMemoryFontFileLoader_CreateInMemoryFontFileReference
                      ldr (fontData fi) (fontDataSize fi) own) w = (hr1, w1)"
    by (cases "call P (IDWriteInMemoryFontFileLoader_CreateInMemoryFontFileReference
                      ldr (fontData fi) (fontDataSize fi) own) w")
  obtain hr2 b2 w2 where c2: "AddFontFile P (file_of ldr own fi) builder w1 = (hr2, b2, w2)"
    by (cases "AddFontFile P (file_of ldr own fi) builder w1")
  show ?case
  proof (cases "FAILED hr1 \<or> FAILED hr2")
    case True
    with Cons.prems c1 c2 show ?thesis
      by (auto simp: file_of_def split: if_splits)
  next
    case False
    with Cons.prems c1 c2 have "add_fonts P ldr own rest b2 w2 = (Inl e, w')"
      by (simp add: file_of_def)
    then show ?thesis by (rule Cons.IH)
  qed
qed

text \<open>
  Claim C3: when some source buffer is not font data, the build ends with an error (a
  failed \<^verbatim>\<open>HRESULT\<close> thrown to the caller, when the factory is there) and leaves
  \<^verbatim>\<open>m_customFontSet\<close> as it was; a manager that was unbuilt stays unbuilt and
  \<^verbatim>\<open>GetFontCount\<close> is still 0.
\<close>

theorem malformed_font_data_fails_build:
  assumes "\<exists>fi \<in> set (appFontResources @ documentFonts).
             parse_font_data P (take (unat (fontDataSize fi)) (fontData fi)) = None"
  shows "\<exists>e m' w'.
           CreateFontSetUsingInMemoryFontData P appFontResources documentFonts m w = (Inl e, m', w')
           \<and> (m_dwriteFactory5 m \<noteq> None \<longrightarrow> (\<exists>hr. e = ComFailure hr \<and> FAILED hr))
           \<and> m_customFontSet m' = m_customFontSet m
           \<and> (m_customFontSet m = None \<longrightarrow> GetFontCount m' = 0)"
proof (cases "m_dwriteFactory5 m")
  case None
  then show ?thesis
    by (simp add: CreateFontSetUsingInMemoryFontData_def GetFontCount_def)
next
  case (Some f5)
  obtain r m' w' where
    run: "CreateFontSetUsingInMemoryFontData P appFontResources documentFonts m w = (r, m', w')"
    by (cases "CreateFontSetUsingInMemoryFontData P appFontResources documentFonts m w")
  from assms have bad:
    "(\<exists>fi \<in> set appFontResources. parse_font_data P (take (unat (fontDataSize fi)) (fontData fi)) = None)
     \<or> (\<exists>fi \<in> set documentFonts. parse_font_data P (take (unat (fontDataSize fi)) (fontData fi)) = None)"
    by auto
  have "(\<exists>hr. r = Inl (ComFailure hr) \<and> FAILED hr) \<and> m_customFontSet m' = m_customFontSet m"
    using Some run
  proof (cases rule: build_cases)
    case (app_failed hr1 hr2 hr3 e)
    with add_fonts_failure [OF app_failed(5)] show ?thesis by auto
  next
    case (doc_failed hr1 hr2 hr3 b4 w4 e)
    with add_fonts_failure [OF doc_failed(6)] show ?thesis by auto
  next
    case (finalize_failed hr1 hr2 hr3 b4 w4 b5 w5 hr6)
    with bad add_fonts_unparsable show ?thesis by blast
  next
    case (built hr1 hr2 hr3 b4 w4 b5 w5 hr6)
    with bad add_fonts_unparsable show ?thesis by blast
  qed simp_all
  with run show ?thesis by (auto simp: GetFontCount_def)
qed

text \<open>
  Claim C5: \<^verbatim>\<open>GetFontCount\<close> is 0 when no font set has been built, and 0 after a
  successful build from no sources; its result is never negative.
\<close>

theorem GetFontCount_zero_when_unbuilt:
  "(m_customFontSet m = None \<longrightarrow> GetFontCount m = 0)
   \<and> (\<forall>m' w'. CreateFontSetUsingInMemoryFontData P [] [] m w = (Inr (), m', w')
         \<longrightarrow> GetFontCount m' = 0)
   \<and> 0 \<le> int (GetFontCount m)"
proof (intro conjI allI impI)
  fix m' w'
  assume run: "CreateFontSetUsingInMemoryFontData P [] [] m w = (Inr (), m', w')"
  then obtain f5 where f5: "m_dwriteFactory5 m = Some f5"
    by (cases "m_dwriteFactory5 m") (simp_all add: CreateFontSetUsingInMemoryFontData_def)
  from f5 run show "GetFontCount m' = 0"
    by (cases rule: build_cases) (auto simp: GetFontCount_def)
qed (simp_all add: GetFontCount_def)

lemma file_events_no_finalize:
  "list_all (\<lambda>ev. file_event (fst ev)) evs \<Longrightarrow> IDWriteFontSetBuilder1_CreateFontSet \<notin> fst ` set evs"
  by (auto simp: list_all_iff)

lemma added_files_append: "added_files (w @ evs) = added_files w @ added_files evs"
  by (simp add: added_files_def)

text \<open>
  Claim C8: a successful build has added, in this order, the file of every app-resource
  buffer and then the file of every document buffer, and only then made its one
  \<^verbatim>\<open>CreateFontSet\<close> call, the last call of the build; the font set holds the fonts of
  these files in that order.
\<close>

theorem build_adds_sources_in_order:
  assumes "CreateFontSetUsingInMemoryFontData P appFontResources documentFonts m w = (Inr (), m', w')"
  shows "\<exists>evs hr fontss.
           w' = w @ evs @ [(IDWriteFontSetBuilder1_CreateFontSet, hr)]
           \<and> \<not> FAILED hr
           \<and> IDWriteFontSetBuilder1_CreateFontSet \<notin> fst ` set evs
           \<and> added_files evs =
               map (\<lambda>fi. InMemoryFontFileReference (length w) (fontData fi) (fontDataSize fi)
                            BinaryResources_owner) appFontResources
               @ map (\<lambda>fi. InMemoryFontFileReference (length w) (fontData fi) (fontDataSize fi)
                              Document_owner) documentFonts
           \<and> map (fonts_in_file P) (added_files evs) = map Some fontss
           \<and> m_customFontSet m' = Some (concat fontss)"
proof -
  from assms obtain f5 where f5: "m_dwriteFactory5 m = Some f5"
    by (cases "m_dwriteFactory5 m") (simp_all add: CreateFontSetUsingInMemoryFontData_def)
  from f5 assms show ?thesis
  proof (cases rule: build_cases)
    case (built hr1 hr2 hr3 b4 w4 b5 w5 hr6)
    let ?w3 = "w @ [(IDWriteFactory5_CreateInMemoryFontFileLoader, hr1),
               (IDWriteFactory5_RegisterFontFileLoader (length w), hr2),
               (IDWriteFactory5_CreateFontSetBuilder, hr3)]"
    from add_fonts_events [OF built(5)] add_fonts_ok [OF built(5)] obtain evs4 fontss4 where
      e4: "w4 = ?w3 @ evs4" "list_all (\<lambda>ev. file_event (fst ev)) evs4"
        "added_files evs4 = map (file_of (length w) BinaryResources_owner) appFontResources"
        "map (\<lambda>fi. fonts_in_file P (file_of (length w) BinaryResources_owner fi)) appFontResources
           = map Some fontss4"
        "b4 = [] @ concat fontss4"
      by (metis (no_types, lifting) same_append_eq)
    from add_fonts_events [OF built(6)] add_fonts_ok [OF built(6)] obtain evs5 fontss5 where
      e5: "w5 = w4 @ evs5" "list_all (\<lambda>ev. file_event (fst ev)) evs5"
        "added_files evs5 = map (file_of (length w) Document_owner) documentFonts"
        "map (\<lambda>fi. fonts_in_file P (file_of (length w) Document_owner fi)) documentFonts
           = map Some fontss5"
        "b5 = b4 @ concat fontss5"
      by (metis (no_types, lifting) same_append_eq)
    let ?evs = "[(IDWriteFactory5_CreateInMemoryFontFileLoader, hr1),
               (IDWriteFactory5_RegisterFontFileLoader (length w), hr2),
               (IDWriteFactory5_CreateFontSetBuilder, hr3)] @ evs4 @ evs5"
    have 1: "w' = w @ ?evs @ [(IDWriteFontSetBuilder1_CreateFontSet, hr6)]"
      using built(10) e4(1) e5(1) by simp
    have 2: "IDWriteFontSetBuilder1_CreateFontSet \<notin> fst ` set ?evs"
      using file_events_no_finalize [OF e4(2)] file_events_no_finalize [OF e5(2)] by auto
    have 3: "added_files ?evs =
               map (\<lambda>fi. InMemoryFontFileReference (length w) (fontData fi) (fontDataSize fi)
                            BinaryResources_owner) appFontResources
               @ map (\<lambda>fi. InMemoryFontFileReference (length w) (fontData fi) (fontDataSize fi)
                              Document_owner) documentFonts"
      using e4(3) e5(3) by (simp add: added_files_def file_of_def)
    have "added_files ?evs = added_files evs4 @ added_files evs5"
      by (simp add: added_files_def)
    then have 4: "map (fonts_in_file P) (added_files ?evs) = map Some (fontss4 @ fontss5)"
      using e4(3,4) e5(3,4) by (simp add: comp_def)
    have 5: "m_customFontSet m' = Some (concat (fontss4 @ fontss5))"
      using built(9) e4(5) e5(5) by simp
    from 1 2 3 4 5 built(7) show ?thesis by blast
  qed simp_all
qed

theorem build_registers_one_loader_per_call_witness:
  "m_dwriteFactory5 fresh_manager \<noteq> None
   \<and> registration_calls
        (snd (snd (CreateFontSetUsingInMemoryFontData sample_platform [sans_buffer] [serif_buffer]
                     fresh_manager []))) = [0]"
proof -
  have a: "m_dwriteFactory5 fresh_manager \<noteq> None" by (simp add: fresh_manager_def)
  obtain r m' w' where
    run: "CreateFontSetUsingInMemoryFontData sample_platform [sans_buffer] [serif_buffer]
            fresh_manager [] = (r, m', w')"
    by (cases "CreateFontSetUsingInMemoryFontData sample_platform [sans_buffer] [serif_buffer]
            fresh_manager []")
  from build_registers_one_loader_per_call [OF a run]
  have "registration_calls w' = [0]"
    by (simp add: sample_platform_def FAILED_S_OK registration_calls_def)
  with a run show ?thesis by simp
qed

text \<open>
  Claim C2 as stated (at most one registration however often the build is invoked) fails:
  on the sample platform a second build on the same manager registers a second loader.
\<close>

theorem second_build_registers_again:
  "registration_calls
     (snd (snd (build_twice sample_platform [sans_buffer] [serif_buffer] fresh_manager []))) = [0, 8]
   \<and> \<not> length (registration_calls
        (snd (snd (build_twice sample_platform [sans_buffer] [serif_buffer] fresh_manager [])))) \<le> 1"
  by code_simp

theorem malformed_font_data_fails_build_witness:
  "parse_font_data sample_platform
     (take (unat (fontDataSize malformed_buffer)) (fontData malformed_buffer)) = None
   \<and> (\<exists>m' w'.
         CreateFontSetUsingInMemoryFontData sample_platform [sans_buffer] [malformed_buffer]
           fresh_manager [] = (Inl (ComFailure DWRITE_E_FILEFORMAT), m', w')
         \<and> m_customFontSet m' = None \<and> GetFontCount m' = 0)"
proof -
  have bad: "parse_font_data sample_platform
     (take (unat (fontDataSize malformed_buffer)) (fontData malformed_buffer)) = None"
    by (simp add: sample_platform_def malformed_buffer_def)
  then have h: "\<exists>fi \<in> set ([sans_buffer] @ [malformed_buffer]).
      parse_font_data sample_platform (take (unat (fontDataSize fi)) (fontData fi)) = None"
    by simp
  have e: "fst (CreateFontSetUsingInMemoryFontData sample_platform [sans_buffer] [malformed_buffer]
           fresh_manager []) = Inl (ComFailure DWRITE_E_FILEFORMAT)"
    by code_simp
  from malformed_font_data_fails_build [OF h, of fresh_manager "[]"] bad e
  show ?thesis by (auto simp: fresh_manager_def)
qed

theorem GetFontCount_zero_when_unbuilt_witness:
  "GetFontCount fresh_manager = 0
   \<and> (\<exists>m' w'. CreateFontSetUsingInMemoryFontData sample_platform [] [] fresh_manager []
                  = (Inr (), m', w') \<and> GetFontCount m' = 0)"
proof -
  have "fst (CreateFontSetUsingInMemoryFontData sample_platform [] [] fresh_manager []) = Inr ()"
    by code_simp
  then obtain m' w' where
    run: "CreateFontSetUsingInMemoryFontData sample_platform [] [] fresh_manager [] = (Inr (), m', w')"
    by (cases "CreateFontSetUsingInMemoryFontData sample_platform [] [] fresh_manager []") auto
  from GetFontCount_zero_when_unbuilt [of fresh_manager sample_platform "[]"] run
  show ?thesis by (simp add: fresh_manager_def)
qed

theorem build_adds_sources_in_order_witness:
  "\<exists>m' evs hr.
     CreateFontSetUsingInMemoryFontData sample_platform [sans_buffer] [serif_buffer] fresh_manager []
       = (Inr (), m', evs @ [(IDWriteFontSetBuilder1_CreateFontSet, hr)])
     \<and> added_files evs =
         [InMemoryFontFileReference 0 [1, 0, 0, 0] 4 BinaryResources_owner,
          InMemoryFontFileReference 0 [2, 0, 0, 0] 4 Document_owner]
     \<and> m_customFontSet m' =
         Some [sample_font ''Sample Sans'' 1062, sample_font ''Sample Serif'' 916]"
proof -
  have "fst (CreateFontSetUsingInMemoryFontData sample_platform [sans_buffer] [serif_buffer]
               fresh_manager []) = Inr ()"
    by code_simp
  then obtain m' w' where
    run: "CreateFontSetUsingInMemoryFontData sample_platform [sans_buffer] [serif_buffer]
            fresh_manager [] = (Inr (), m', w')"
    by (cases "CreateFontSetUsingInMemoryFontData sample_platform [sans_buffer] [serif_buffer]
            fresh_manager []") auto
  from build_adds_sources_in_order [OF run] obtain evs hr fontss where
    k: "w' = [] @ evs @ [(IDWriteFontSetBuilder1_CreateFontSet, hr)]"
      "added_files evs =
         map (\<lambda>fi. InMemoryFontFileReference (length ([]::world)) (fontData fi) (fontDataSize fi)
                            BinaryResources_owner) [sans_buffer]
         @ map (\<lambda>fi. InMemoryFontFileReference (length ([]::world)) (fontData fi) (fontDataSize fi)
                              Document_owner) [serif_buffer]"
      "map (fonts_in_file sample_platform) (added_files evs) = map Some fontss"
      "m_customFontSet m' = Some (concat fontss)"
    by blast
  have a: "added_files evs =
         [InMemoryFontFileReference 0 [1, 0, 0, 0] 4 BinaryResources_owner,
          InMemoryFontFileReference 0 [2, 0, 0, 0] 4 Document_owner]"
    using k(2) by (simp add: sans_buffer_def serif_buffer_def)
  have "fontss = [[sample_font ''Sample Sans'' 1062], [sample_font ''Sample Serif'' 916]]"
    using k(3) unfolding a by (auto simp: sample_platform_def)
  with k(4) have "m_customFontSet m' =
         Some [sample_font ''Sample Sans'' 1062, sample_font ''Sample Serif'' 916]" by simp
  with run k(1) a show ?thesis by auto
qed

section \<open>Properties of the queries and of the destructor\<close>



lemma GetFontDataDetails_handle_not_read:
  "GetFontDataDetails P h m w = GetFontDataDetails P h' m w"
  by (simp add: GetFontDataDetails_def)


lemma has_remote_from_result:
  "has_remote_from P i fs w = (Inr b, w') \<Longrightarrow>
   b = (\<exists>e \<in> set fs. locality e \<noteq> DWRITE_LOCALITY_LOCAL)"
proof (induction fs arbitrary: i w)
  case Nil
  then show ?case by simp
next
  case (Cons e rest)
  obtain hr w1 where c: "call P (IDWriteFontSet_GetFontFaceReference i) w = (hr, w1)"
    by (cases "call P (IDWriteFontSet_GetFontFaceReference i) w")
  show ?case
  proof (cases "locality e = DWRITE_LOCALITY_LOCAL")
    case True
    with Cons.prems c have "has_remote_from P (Suc i) rest w1 = (Inr b, w')"
      by (simp split: if_splits)
    from Cons.IH [OF this] True show ?thesis by simp
  next
    case False
    with Cons.prems c show ?thesis by (auto split: if_splits)
  qed
qed

lemma has_remote_from_total:
  assumes "\<forall>w i. \<not> FAILED (status P w (IDWriteFontSet_GetFontFaceReference i))"
  shows "\<exists>b w'. has_remote_from P i fs w = (Inr b, w')"
proof (induction fs arbitrary: i w)
  case Nil
  then show ?case by auto
next
  case (Cons e rest)
  obtain hr w1 where c: "call P (IDWriteFontSet_GetFontFaceReference i) w = (hr, w1)"
    by (cases "call P (IDWriteFontSet_GetFontFaceReference i) w")
  from call_status [OF c] assms have "\<not> FAILED hr" by simp
  with c Cons.IH [of "Suc i" w1] show ?case by auto
qed

text \<open>
  Claim C4: on a built font set, whenever \<^verbatim>\<open>CustomFontSetHasRemoteFonts\<close> returns, it
  returns true exactly if some font of the set has a locality other than
  \<^verbatim>\<open>DWRITE_LOCALITY_LOCAL\<close>; it does return when the platform hands out every face
  reference; and it does not return true when every font is local.
\<close>

theorem HasRemoteFonts_iff_some_font_not_local:
  assumes "m_customFontSet m = Some fs"
  shows "(\<forall>b w'. CustomFontSetHasRemoteFonts P m w = (Inr b, w')
            \<longrightarrow> b = (\<exists>e \<in> set fs. locality e \<noteq> DWRITE_LOCALITY_LOCAL))
       \<and> ((\<forall>w i. \<not> FAILED (status P w (IDWriteFontSet_GetFontFaceReference i)))
            \<longrightarrow> fst (CustomFontSetHasRemoteFonts P m w)
                  = Inr (\<exists>e \<in> set fs. locality e \<noteq> DWRITE_LOCALITY_LOCAL))
       \<and> ((\<forall>e \<in> set fs. locality e = DWRITE_LOCALITY_LOCAL)
            \<longrightarrow> fst (CustomFontSetHasRemoteFonts P m w) \<noteq> Inr True)"
proof (intro conjI allI impI)
  fix b w'
  assume "CustomFontSetHasRemoteFonts P m w = (Inr b, w')"
  with assms have "has_remote_from P 0 fs w = (Inr b, w')"
    by (simp add: CustomFontSetHasRemoteFonts_def)
  then show "b = (\<exists>e \<in> set fs. locality e \<noteq> DWRITE_LOCALITY_LOCAL)"
    by (rule has_remote_from_result)
next
  assume "\<forall>w i. \<not> FAILED (status P w (IDWriteFontSet_GetFontFaceReference i))"
  from has_remote_from_total [OF this, of 0 fs w] obtain b w' where
    r: "has_remote_from P 0 fs w = (Inr b, w')" by blast
  from has_remote_from_result [OF r] r assms
  show "fst (CustomFontSetHasRemoteFonts P m w)
          = Inr (\<exists>e \<in> set fs. locality e \<noteq> DWRITE_LOCALITY_LOCAL)"
    by (simp add: CustomFontSetHasRemoteFonts_def)
next
  assume local: "\<forall>e \<in> set fs. locality e = DWRITE_LOCALITY_LOCAL"
  show "fst (CustomFontSetHasRemoteFonts P m w) \<noteq> Inr True"
  proof
    assume t: "fst (CustomFontSetHasRemoteFonts P m w) = Inr True"
    then obtain w' where "has_remote_from P 0 fs w = (Inr True, w')"
      using assms by (cases "has_remote_from P 0 fs w") (simp add: CustomFontSetHasRemoteFonts_def)
    from has_remote_from_result [OF this] local show False by simp
  qed
qed





lemma FindLocaleName_Some:
  "FindLocaleName strs loc = Some i \<Longrightarrow> i < length strs \<and> map_of strs loc = Some (snd (strs ! i))"
proof (induction strs arbitrary: i)
  case Nil
  then show ?case by simp
next
  case (Cons s rest)
  obtain k v where s: "s = (k, v)" by (cases s)
  show ?case
  proof (cases "k = loc")
    case True
    with Cons.prems s show ?thesis by simp
  next
    case False
    with Cons.prems s obtain j where j: "FindLocaleName rest loc = Some j" "i = Suc j"
      by auto
    from Cons.IH [OF j(1)] j(2) s False show ?thesis by simp
  qed
qed

lemma FindLocaleName_None:
  "FindLocaleName strs loc = None \<Longrightarrow> map_of strs loc = None"
  by (induction strs) (auto split: if_splits)

lemma report_name:
  assumes "full_names e \<noteq> []"
  shows "canonical_full_name e =
         Some (snd (full_names e !
                 (case FindLocaleName (full_names e) ''en-US'' of Some i \<Rightarrow> i | None \<Rightarrow> 0)))"
proof -
  obtain s rest where sr: "full_names e = s # rest"
    using assms by (cases "full_names e") auto
  have first: "snd (full_names e ! 0) = snd s" by (simp add: sr)
  show ?thesis
  proof (cases "FindLocaleName (full_names e) ''en-US''")
    case None
    have m: "map_of (full_names e) ''en-US'' = None"
      by (rule FindLocaleName_None [OF None])
    have "canonical_full_name e = Some (snd s)"
      unfolding canonical_full_name_def m by (simp add: sr)
    then show ?thesis unfolding None using first by simp
  next
    case (Some i)
    from FindLocaleName_Some [OF Some]
    have m: "map_of (full_names e) ''en-US'' = Some (snd (full_names e ! i))" by simp
    have "canonical_full_name e = Some (snd (full_names e ! i))"
      unfolding canonical_full_name_def m using assms by (cases "full_names e") simp_all
    then show ?thesis unfolding Some by simp
  qed
qed

lemma enqueued_fonts_append: "enqueued_fonts (w @ evs) = enqueued_fonts w @ enqueued_fonts evs"
  by (simp add: enqueued_fonts_def)

lemma created_faces_append: "created_faces (w @ evs) = created_faces w @ created_faces evs"
  by (simp add: created_faces_def)

lemma font_detail_report_ok:
  assumes "font_detail_report P i e w = (Inr line, w')"
  shows "line = expected_report_line i e
       \<and> (\<exists>evs. w' = w @ evs \<and> enqueued_fonts evs = [] \<and> created_faces evs = [i])"
proof -
  obtain hr1 w1 where c1: "call P (IDWriteFontSet_GetFontFaceReference i) w = (hr1, w1)"
    by (cases "call P (IDWriteFontSet_GetFontFaceReference i) w")
  obtain hr2 w2 where c2: "call P (IDWriteFontFaceReference_CreateFontFace i) w1 = (hr2, w2)"
    by (cases "call P (IDWriteFontFaceReference_CreateFontFace i) w1")
  obtain hr3 w3 where c3: "call P (IDWriteFontFace3_GetInformationalStrings i
                      DWRITE_INFORMATIONAL_STRING_FULL_NAME) w2 = (hr3, w3)"
    by (cases "call P (IDWriteFontFace3_GetInformationalStrings i
                      DWRITE_INFORMATIONAL_STRING_FULL_NAME) w2")
  let ?evs3 = "[(IDWriteFontSet_GetFontFaceReference i, hr1),
                (IDWriteFontFaceReference_CreateFontFace i, hr2),
                (IDWriteFontFace3_GetInformationalStrings i DWRITE_INFORMATIONAL_STRING_FULL_NAME, hr3)]"
  have w3: "w3 = w @ ?evs3"
    using call_world [OF c1] call_world [OF c2] call_world [OF c3] by simp
  have t3: "enqueued_fonts ?evs3 = []" "created_faces ?evs3 = [i]"
    by (simp_all add: enqueued_fonts_def created_faces_def)
  from assms c1 c2 c3 have f: "\<not> FAILED hr1" "\<not> FAILED hr2" "\<not> FAILED hr3"
    by (auto simp: font_detail_report_def Let_def split: if_splits)
  show ?thesis
  proof (cases "full_names e = []")
    case True
    with assms c1 c2 c3 f have "line = ''Font '' @ to_wstring i @ '': '' @ ''x-height = ''
                                   @ to_wstring (unat (xHeight e))" "w' = w3"
      by (simp_all add: font_detail_report_def Let_def)
    with True w3 t3 show ?thesis
      by (auto simp: expected_report_line_def canonical_full_name_def)
  next
    case False
    let ?idx = "case FindLocaleName (full_names e) ''en-US'' of Some i \<Rightarrow> i | None \<Rightarrow> 0"
    let ?len = "length (snd (full_names e ! ?idx))"
    obtain hr4 w4 where c4: "call P (IDWriteLocalizedStrings_FindLocaleName i ''en-US'') w3 = (hr4, w4)"
      by (cases "call P (IDWriteLocalizedStrings_FindLocaleName i ''en-US'') w3")
    obtain hr5 w5 where c5: "call P (IDWriteLocalizedStrings_GetStringLength i ?idx) w4 = (hr5, w5)"
      by (cases "call P (IDWriteLocalizedStrings_GetStringLength i ?idx) w4")
    obtain hr6 w6 where
      c6: "call P (IDWriteLocalizedStrings_GetString i ?idx (?len + 1)) w5 = (hr6, w6)"
      by (cases "call P (IDWriteLocalizedStrings_GetString i ?idx (?len + 1)) w5")
    let ?evs6 = "?evs3 @ [(IDWriteLocalizedStrings_FindLocaleName i ''en-US'', hr4),
                          (IDWriteLocalizedStrings_GetStringLength i ?idx, hr5),
                          (IDWriteLocalizedStrings_GetString i ?idx (?len + 1), hr6)]"
    have w6: "w6 = w @ ?evs6"
      using w3 call_world [OF c4] call_world [OF c5] call_world [OF c6] by simp
    have t6: "enqueued_fonts ?evs6 = []" "created_faces ?evs6 = [i]"
      by (simp_all add: enqueued_fonts_def created_faces_def)
    from assms c1 c2 c3 c4 c5 c6 f False
    have "line = snd (full_names e ! ?idx) @ '': '' @ ''x-height = ''
                   @ to_wstring (unat (xHeight e))" "w' = w6"
      by (auto simp: font_detail_report_def Let_def split: if_splits)
    with report_name [OF False] w6 t6 show ?thesis
      by (auto simp: expected_report_line_def)
  qed
qed

lemma font_detail_report_total:
  assumes "\<forall>w c. \<not> FAILED (status P w c)"
  shows "\<exists>line w'. font_detail_report P i e w = (Inr line, w')"
proof -
  have k: "\<And>c w. \<exists>hr w'. call P c w = (hr, w') \<and> \<not> FAILED hr"
    using assms by (simp add: call_def Let_def)
  show ?thesis
    unfolding font_detail_report_def Let_def call_def using assms by simp
qed

lemma enqueue_requests_ok:
  "enqueue_requests P i fs w = (Inr u, w') \<Longrightarrow>
   \<exists>evs. w' = w @ evs \<and> enqueued_fonts evs = [i..<i + length fs] \<and> created_faces evs = []"
proof (induction fs arbitrary: i w)
  case Nil
  then show ?case by (simp add: enqueued_fonts_def created_faces_def)
next
  case (Cons e rest)
  obtain hr1 w1 where c1: "call P (IDWriteFontSet_GetFontFaceReference i) w = (hr1, w1)"
    by (cases "call P (IDWriteFontSet_GetFontFaceReference i) w")
  obtain hr2 w2 where
    c2: "call P (IDWriteFontFaceReference_EnqueueFontDownloadRequest i) w1 = (hr2, w2)"
    by (cases "call P (IDWriteFontFaceReference_EnqueueFontDownloadRequest i) w1")
  let ?evs2 = "[(IDWriteFontSet_GetFontFaceReference i, hr1),
                (IDWriteFontFaceReference_EnqueueFontDownloadRequest i, hr2)]"
  have w2: "w2 = w @ ?evs2" using call_world [OF c1] call_world [OF c2] by simp
  from Cons.prems c1 c2 have "enqueue_requests P (Suc i) rest w2 = (Inr u, w')"
    by (simp split: if_splits)
  from Cons.IH [OF this] obtain evs where
    evs: "w' = w2 @ evs" "enqueued_fonts evs = [Suc i..<Suc i + length rest]"
      "created_faces evs = []" by blast
  have "w' = w @ (?evs2 @ evs)" using evs(1) w2 by simp
  moreover have "enqueued_fonts (?evs2 @ evs) = [i..<i + length (e # rest)]"
    unfolding enqueued_fonts_append evs(2) by (simp add: enqueued_fonts_def upt_conv_Cons del: upt_Suc)
  moreover have "created_faces (?evs2 @ evs) = []"
    unfolding created_faces_append evs(3) by (simp add: created_faces_def)
  ultimately show ?case by blast
qed

lemma enqueue_requests_total:
  assumes "\<forall>w c. \<not> FAILED (status P w c)"
  shows "\<exists>w'. enqueue_requests P i fs w = (Inr (), w')"
proof (induction fs arbitrary: i w)
  case Nil
  then show ?case by simp
next
  case (Cons e rest)
  obtain hr1 w1 where c1: "call P (IDWriteFontSet_GetFontFaceReference i) w = (hr1, w1)"
    by (cases "call P (IDWriteFontSet_GetFontFaceReference i) w")
  obtain hr2 w2 where
    c2: "call P (IDWriteFontFaceReference_EnqueueFontDownloadRequest i) w1 = (hr2, w2)"
    by (cases "call P (IDWriteFontFaceReference_EnqueueFontDownloadRequest i) w1")
  from call_status [OF c1] call_status [OF c2] assms have "\<not> FAILED hr1" "\<not> FAILED hr2"
    by simp_all
  with c1 c2 Cons.IH [of "Suc i" w2] show ?case by simp
qed

lemma report_fonts_ok:
  "report_fonts P i fs acc w = (Inr lines, w') \<Longrightarrow>
   lines = acc @ map2 expected_report_line [i..<i + length fs] fs
   \<and> (\<exists>evs. w' = w @ evs \<and> enqueued_fonts evs = [] \<and> created_faces evs = [i..<i + length fs])"
proof (induction fs arbitrary: i acc w)
  case Nil
  then show ?case by (simp add: enqueued_fonts_def created_faces_def)
next
  case (Cons e rest)
  obtain r1 w1 where c1: "font_detail_report P i e w = (r1, w1)"
    by (cases "font_detail_report P i e w")
  with Cons.prems obtain line where line: "r1 = Inr line"
    and rest: "report_fonts P (Suc i) rest (acc @ [line]) w1 = (Inr lines, w')"
    by (cases r1) simp_all
  from font_detail_report_ok [OF c1 [unfolded line]] obtain evs1 where
    e1: "line = expected_report_line i e" "w1 = w @ evs1" "enqueued_fonts evs1 = []"
      "created_faces evs1 = [i]" by blast
  from Cons.IH [OF rest] obtain evs where
    l: "lines = (acc @ [line]) @ map2 expected_report_line [Suc i..<Suc i + length rest] rest"
    and evs: "w' = w1 @ evs" "enqueued_fonts evs = []"
      "created_faces evs = [Suc i..<Suc i + length rest]" by blast
  have "lines = acc @ map2 expected_report_line [i..<i + length (e # rest)] (e # rest)"
    using l e1(1) by (simp add: upt_conv_Cons del: upt_Suc)
  moreover have "w' = w @ (evs1 @ evs)" using evs(1) e1(2) by simp
  moreover have "enqueued_fonts (evs1 @ evs) = []"
    unfolding enqueued_fonts_append using e1(3) evs(2) by simp
  moreover have "created_faces (evs1 @ evs) = [i..<i + length (e # rest)]"
    unfolding created_faces_append using e1(4) evs(3) by (simp add: upt_conv_Cons del: upt_Suc)
  ultimately show ?case by blast
qed

lemma report_fonts_total:
  assumes "\<forall>w c. \<not> FAILED (status P w c)"
  shows "\<exists>lines w'. report_fonts P i fs acc w = (Inr lines, w')"
proof (induction fs arbitrary: i acc w)
  case Nil
  then show ?case by simp
next
  case (Cons e rest)
  from font_detail_report_total [OF assms, of i e w] obtain line w1 where
    "font_detail_report P i e w = (Inr line, w1)" by blast
  with Cons.IH [of "Suc i" "acc @ [line]" w1] show ?case by simp
qed

lemma expected_report_line_not_empty: "expected_report_line i e \<noteq> []"
  by (simp add: expected_report_line_def)

text \<open>
  Claim C6: when \<^verbatim>\<open>GetFontDataDetails\<close> returns on a set of N fonts, it has first put a
  download request on the queue for each of the N fonts, in index order, creating no font
  face meanwhile, and then created the N font faces in index order; the result has N
  lines, line \<open>i\<close> being the report line the specification describes for font \<open>i\<close>, which
  is never empty. On a platform whose calls all succeed it does return.
\<close>

theorem GetFontDataDetails_reports_every_font:
  assumes "m_customFontSet m = Some fs"
  shows "(\<forall>lines w'. GetFontDataDetails P cancellationHandle m w = (Inr lines, w') \<longrightarrow>
            length lines = length fs
            \<and> (\<forall>i < length fs. lines ! i = expected_report_line i (fs ! i) \<and> lines ! i \<noteq> [])
            \<and> (\<exists>evs1 evs2. w' = w @ evs1 @ evs2
                  \<and> enqueued_fonts evs1 = [0..<length fs] \<and> created_faces evs1 = []
                  \<and> enqueued_fonts evs2 = [] \<and> created_faces evs2 = [0..<length fs]))
       \<and> ((\<forall>w c. \<not> FAILED (status P w c)) \<longrightarrow>
            (\<exists>lines w'. GetFontDataDetails P cancellationHandle m w = (Inr lines, w')))"
proof (intro conjI)
  show "\<forall>lines w'. GetFontDataDetails P cancellationHandle m w = (Inr lines, w') \<longrightarrow>
            length lines = length fs
            \<and> (\<forall>i < length fs. lines ! i = expected_report_line i (fs ! i) \<and> lines ! i \<noteq> [])
            \<and> (\<exists>evs1 evs2. w' = w @ evs1 @ evs2
                  \<and> enqueued_fonts evs1 = [0..<length fs] \<and> created_faces evs1 = []
                  \<and> enqueued_fonts evs2 = [] \<and> created_faces evs2 = [0..<length fs])"
  proof (intro allI impI)
    fix lines w'
    assume run: "GetFontDataDetails P cancellationHandle m w = (Inr lines, w')"
    obtain r1 w1 where c1: "enqueue_requests P 0 fs w = (r1, w1)"
      by (cases "enqueue_requests P 0 fs w")
    with run assms obtain u where u: "r1 = Inr u"
      and rep: "report_fonts P 0 fs [] w1 = (Inr lines, w')"
      by (cases r1) (simp_all add: GetFontDataDetails_def)
    from enqueue_requests_ok [OF c1 [unfolded u]] obtain evs1 where
      e1: "w1 = w @ evs1" "enqueued_fonts evs1 = [0..<length fs]" "created_faces evs1 = []"
      by auto
    from report_fonts_ok [OF rep] obtain evs2 where
      l: "lines = map2 expected_report_line [0..<length fs] fs"
      and e2: "w' = w1 @ evs2" "enqueued_fonts evs2 = []" "created_faces evs2 = [0..<length fs]"
      by auto
    from l have len: "length lines = length fs" by simp
    have tr: "\<exists>evs1 evs2. w' = w @ evs1 @ evs2
                  \<and> enqueued_fonts evs1 = [0..<length fs] \<and> created_faces evs1 = []
                  \<and> enqueued_fonts evs2 = [] \<and> created_faces evs2 = [0..<length fs]"
      using e1 e2 by auto
    have each: "\<forall>i < length fs. lines ! i = expected_report_line i (fs ! i) \<and> lines ! i \<noteq> []"
      using l by (simp add: expected_report_line_not_empty)
    from len each tr show "length lines = length fs
            \<and> (\<forall>i < length fs. lines ! i = expected_report_line i (fs ! i) \<and> lines ! i \<noteq> [])
            \<and> (\<exists>evs1 evs2. w' = w @ evs1 @ evs2
                  \<and> enqueued_fonts evs1 = [0..<length fs] \<and> created_faces evs1 = []
                  \<and> enqueued_fonts evs2 = [] \<and> created_faces evs2 = [0..<length fs])"
      by blast
  qed
next
  show "(\<forall>w c. \<not> FAILED (status P w c)) \<longrightarrow>
            (\<exists>lines w'. GetFontDataDetails P cancellationHandle m w = (Inr lines, w'))"
  proof
    assume ok: "\<forall>w c. \<not> FAILED (status P w c)"
    from enqueue_requests_total [OF ok, of 0 fs w] obtain w1 where
      c1: "enqueue_requests P 0 fs w = (Inr (), w1)" by blast
    from report_fonts_total [OF ok, of 0 fs "[]" w1] c1 assms
    show "\<exists>lines w'. GetFontDataDetails P cancellationHandle m w = (Inr lines, w')"
      by (simp add: GetFontDataDetails_def)
  qed
qed

text \<open>
  Claim C10: on a manager without a font set, \<^verbatim>\<open>GetFullFontNames\<close>,
  \<^verbatim>\<open>GetFontDataDetails\<close> and \<^verbatim>\<open>CustomFontSetHasRemoteFonts\<close> go through the null
  pointer before any platform call, while \<^verbatim>\<open>GetFontCount\<close> returns 0.
\<close>

theorem queries_on_unbuilt_manager:
  assumes "m_customFontSet m = None"
  shows "GetFullFontNames P m w = (Inl NullDereference, w)
       \<and> GetFontDataDetails P cancellationHandle m w = (Inl NullDereference, w)
       \<and> CustomFontSetHasRemoteFonts P m w = (Inl NullDereference, w)
       \<and> GetFontCount m = 0"
  using assms
  by (simp add: GetFullFontNames_def GetPropertyValuesFromFontSet_def GetFontDataDetails_def
      CustomFontSetHasRemoteFonts_def GetFontCount_def)







text \<open>
  Claim C1 on the code: with a cancellation event that is already signalled, the sample
  manager's two fonts are still reported, so the result is not empty; and when the font
  data cannot be obtained, the failure is thrown rather than an empty result returned.
\<close>

theorem GetFontDataDetails_ignores_cancellation:
  "GetFontCount built_manager = 2
   \<and> fst (GetFontDataDetails sample_platform (EventHandle True) built_manager built_world)
       = Inr [''Sample Sans: x-height = 1062'', ''Sample Serif: x-height = 916'']
   \<and> fst (GetFontDataDetails remote_platform (EventHandle False) built_manager built_world)
       = Inl (ComFailure DWRITE_E_REMOTEFONT)"
  by code_simp

lemma sample_platform_ok: "\<forall>w c. \<not> FAILED (status sample_platform w c)"
  by (simp add: sample_platform_def FAILED_S_OK)

lemma built_font_set:
  "m_customFontSet built_manager =
     Some [sample_font ''Sample Sans'' 1062, sample_font ''Sample Serif'' 916]"
  by code_simp

theorem HasRemoteFonts_iff_some_font_not_local_witness:
  "m_customFontSet built_manager =
     Some [sample_font ''Sample Sans'' 1062, sample_font ''Sample Serif'' 916]
   \<and> fst (CustomFontSetHasRemoteFonts sample_platform built_manager built_world) = Inr False
   \<and> fst (CustomFontSetHasRemoteFonts sample_platform
            (manager_with [sample_font ''Sample Sans'' 1062, remote_font]) built_world) = Inr True"
proof -
  have ok: "\<forall>w i. \<not> FAILED (status sample_platform w (IDWriteFontSet_GetFontFaceReference i))"
    using sample_platform_ok by simp
  from HasRemoteFonts_iff_some_font_not_local [OF built_font_set, of sample_platform built_world] ok
  have "fst (CustomFontSetHasRemoteFonts sample_platform built_manager built_world)
          = Inr (\<exists>e \<in> set [sample_font ''Sample Sans'' 1062, sample_font ''Sample Serif'' 916].
                   locality e \<noteq> DWRITE_LOCALITY_LOCAL)"
    by blast
  then have a: "fst (CustomFontSetHasRemoteFonts sample_platform built_manager built_world)
                  = Inr False"
    by (simp add: sample_font_def)
  have fs: "m_customFontSet (manager_with [sample_font ''Sample Sans'' 1062, remote_font])
              = Some [sample_font ''Sample Sans'' 1062, remote_font]"
    by (simp add: manager_with_def)
  from HasRemoteFonts_iff_some_font_not_local [OF fs, of sample_platform built_world] ok
  have "fst (CustomFontSetHasRemoteFonts sample_platform
            (manager_with [sample_font ''Sample Sans'' 1062, remote_font]) built_world)
          = Inr (\<exists>e \<in> set [sample_font ''Sample Sans'' 1062, remote_font].
                   locality e \<noteq> DWRITE_LOCALITY_LOCAL)"
    by blast
  then have b: "fst (CustomFontSetHasRemoteFonts sample_platform
            (manager_with [sample_font ''Sample Sans'' 1062, remote_font]) built_world) = Inr True"
    by (simp add: sample_font_def remote_font_def)
  from built_font_set a b show ?thesis by simp
qed

theorem GetFontDataDetails_reports_every_font_witness:
  "m_customFontSet (manager_with [sample_font ''Sample Sans'' 1062, nameless_font])
     = Some [sample_font ''Sample Sans'' 1062, nameless_font]
   \<and> (\<exists>lines w'.
         GetFontDataDetails sample_platform NullHandle
           (manager_with [sample_font ''Sample Sans'' 1062, nameless_font]) built_world
           = (Inr lines, w')
         \<and> length lines = 2
         \<and> lines ! 0 = ''Sample Sans: x-height = 1062''
         \<and> lines ! 1 = ''Font 1: x-height = 500'')"
proof -
  let ?fs = "[sample_font ''Sample Sans'' 1062, nameless_font]"
  have fs: "m_customFontSet (manager_with ?fs) = Some ?fs"
    by (simp add: manager_with_def)
  note t = GetFontDataDetails_reports_every_font [OF fs, of sample_platform NullHandle built_world]
  from t sample_platform_ok obtain lines w' where
    run: "GetFontDataDetails sample_platform NullHandle (manager_with ?fs) built_world
            = (Inr lines, w')"
    by blast
  with t have len: "length lines = length ?fs"
    and each: "\<forall>i < length ?fs. lines ! i = expected_report_line i (?fs ! i) \<and> lines ! i \<noteq> []"
    by blast+
  from each have "lines ! 0 = expected_report_line 0 (sample_font ''Sample Sans'' 1062)"
    "lines ! 1 = expected_report_line 1 nameless_font"
    by simp_all
  moreover have "expected_report_line 0 (sample_font ''Sample Sans'' 1062)
                   = ''Sample Sans: x-height = 1062''"
    by code_simp
  moreover have "expected_report_line 1 nameless_font = ''Font 1: x-height = 500''"
    by code_simp
  ultimately have "lines ! 0 = ''Sample Sans: x-height = 1062''"
    "lines ! 1 = ''Font 1: x-height = 500''" by simp_all
  with fs run len show ?thesis by simp
qed




theorem queries_on_unbuilt_manager_witness:
  "m_customFontSet fresh_manager = None
   \<and> GetFullFontNames sample_platform fresh_manager [] = (Inl NullDereference, [])
   \<and> GetFontDataDetails sample_platform NullHandle fresh_manager [] = (Inl NullDereference, [])
   \<and> CustomFontSetHasRemoteFonts sample_platform fresh_manager [] = (Inl NullDereference, [])
   \<and> GetFontCount fresh_manager = 0"
proof -
  have u: "m_customFontSet fresh_manager = None" by (simp add: fresh_manager_def)
  from queries_on_unbuilt_manager [OF u, of sample_platform "[]" NullHandle] u
  show ?thesis by simp
qed

end
